theory Spec2Isabelle
  imports Main
begin

section \<open>JavaScript values used by the Bluetooth core\<close>

text \<open>
  Strings are lists of characters. The AT protocol and the control-bus paths are ASCII,
  so a character is one code unit; case conversion is modelled on the ASCII letters.
  Numbers are the values that \<^verbatim>\<open>parseInt\<close> and \<^verbatim>\<open>Number\<close> return on decimal
  integer text: an integer or \<^verbatim>\<open>NaN\<close>.
\<close>

datatype jsnum = Num int | NaN

text \<open>Strict equality \<^verbatim>\<open>===\<close> on numbers: \<^verbatim>\<open>NaN\<close> equals nothing, not even itself.\<close>

fun strictEq :: "jsnum \<Rightarrow> jsnum \<Rightarrow> bool" where
  "strictEq (Num a) (Num b) = (a = b)"
| "strictEq _ _ = False"

definition upperChar :: "char \<Rightarrow> char" where
  "upperChar c =
     (case map_of (zip ''abcdefghijklmnopqrstuvwxyz'' ''ABCDEFGHIJKLMNOPQRSTUVWXYZ'') c of
        Some u \<Rightarrow> u | None \<Rightarrow> c)"

definition lowerChar :: "char \<Rightarrow> char" where
  "lowerChar c =
     (case map_of (zip ''ABCDEFGHIJKLMNOPQRSTUVWXYZ'' ''abcdefghijklmnopqrstuvwxyz'') c of
        Some l \<Rightarrow> l | None \<Rightarrow> c)"

definition toUpperCase :: "string \<Rightarrow> string" where
  "toUpperCase s = map upperChar s"

definition toLowerCase :: "string \<Rightarrow> string" where
  "toLowerCase s = map lowerChar s"

text \<open>\<^verbatim>\<open>s.replace(/[xy]/g, r)\<close> for a character class and a one-character replacement.\<close>

definition replaceChars :: "char list \<Rightarrow> char \<Rightarrow> string \<Rightarrow> string" where
  "replaceChars cls r s = map (\<lambda>c. if c \<in> set cls then r else c) s"

definition isDigit :: "char \<Rightarrow> bool" where
  "isDigit c = (c \<in> set ''0123456789'')"

definition isHexDigit :: "char \<Rightarrow> bool" where
  "isHexDigit c = (c \<in> set ''0123456789ABCDEFabcdef'')"

text \<open>White space of \<^verbatim>\<open>trim\<close> and of the regular expression class \<^verbatim>\<open>\s\<close>
  among the 8-bit characters: tab, line feed, vertical tab, form feed, carriage return,
  space and no-break space.\<close>

definition isSpace :: "char \<Rightarrow> bool" where
  "isSpace c = (c \<in> set [CHR 0x09, CHR 0x0A, CHR 0x0B, CHR 0x0C, CHR 0x0D, CHR '' '', CHR 0xA0])"

definition trim :: "string \<Rightarrow> string" where
  "trim s = rev (dropWhile isSpace (rev (dropWhile isSpace s)))"

definition startsWith :: "string \<Rightarrow> string \<Rightarrow> bool" where
  "startsWith s p = (take (length p) s = p)"

text \<open>\<^verbatim>\<open>s.includes(p)\<close>: \<^verbatim>\<open>p\<close> occurs somewhere in \<^verbatim>\<open>s\<close>.\<close>

fun includesStr :: "string \<Rightarrow> string \<Rightarrow> bool" where
  "includesStr [] p = (p = [])"
| "includesStr (c # cs) p = (startsWith (c # cs) p \<or> includesStr cs p)"

text \<open>\<^verbatim>\<open>s.split(c)\<close> on a one-character separator: never empty, the pieces in order.\<close>

fun splitOn :: "char \<Rightarrow> string \<Rightarrow> string list" where
  "splitOn sep [] = [[]]"
| "splitOn sep (c # cs) =
     (if c = sep then [] # splitOn sep cs
      else (case splitOn sep cs of [] \<Rightarrow> [[c]] | p # ps \<Rightarrow> (c # p) # ps))"

text \<open>The decimal text of a number, as a template literal prints it.\<close>

definition digitChar :: "nat \<Rightarrow> char" where
  "digitChar d = ''0123456789'' ! d"

fun decimalNat :: "nat \<Rightarrow> string" where
  "decimalNat n = (if n < 10 then [digitChar n] else decimalNat (n div 10) @ [digitChar (n mod 10)])"

declare decimalNat.simps [simp del]

definition decimal :: "int \<Rightarrow> string" where
  "decimal i = (if i < 0 then CHR ''-'' # decimalNat (nat (- i)) else decimalNat (nat i))"

fun showNum :: "jsnum \<Rightarrow> string" where
  "showNum (Num i) = decimal i"
| "showNum NaN = ''NaN''"

section \<open>Device paths and MAC addresses (bluezManager.js)\<close>

text \<open>The adapter path \<^verbatim>\<open>/org/bluez/hci${hciDevice}\<close> for the adapter index.\<close>

definition adapterPath :: "nat \<Rightarrow> string" where
  "adapterPath hciDevice = ''/org/bluez/hci'' @ decimalNat hciDevice"

text \<open>\<^verbatim>\<open>macToDevicePath\<close>: separators become underscores, letters upper case, behind
  the adapter path and \<^verbatim>\<open>/dev_\<close>.\<close>

definition macToDevicePath :: "nat \<Rightarrow> string \<Rightarrow> string" where
  "macToDevicePath hciDevice mac =
     (let clean = toUpperCase (replaceChars '':-'' (CHR ''_'') mac)
      in adapterPath hciDevice @ ''/dev_'' @ clean)"

text \<open>The body of the regular expression of \<^verbatim>\<open>devicePathToMac\<close>: two hex digits,
  then \<open>n\<close> times an underscore and two hex digits, at the start of the text. The result
  is the matched text.\<close>

fun hexOctets :: "nat \<Rightarrow> string \<Rightarrow> string option" where
  "hexOctets 0 (a # b # r) = (if isHexDigit a \<and> isHexDigit b then Some [a, b] else None)"
| "hexOctets (Suc n) (a # b # c # r) =
     (if isHexDigit a \<and> isHexDigit b \<and> c = CHR ''_''
      then map_option (\<lambda>m. a # b # c # m) (hexOctets n r) else None)"
| "hexOctets _ _ = None"

definition devPatternAt :: "string \<Rightarrow> string option" where
  "devPatternAt s = (if startsWith s ''dev_'' then hexOctets 5 (drop 4 s) else None)"

text \<open>The regular expression is not anchored: the leftmost match wins.\<close>

fun devPatternSearch :: "string \<Rightarrow> string option" where
  "devPatternSearch [] = None"
| "devPatternSearch (c # cs) =
     (case devPatternAt (c # cs) of Some m \<Rightarrow> Some m | None \<Rightarrow> devPatternSearch cs)"

definition devicePathToMac :: "string \<Rightarrow> string" where
  "devicePathToMac path =
     (case devPatternSearch path of
        None \<Rightarrow> ''''
      | Some m \<Rightarrow> toUpperCase (replaceChars ''_'' (CHR '':'') m))"

text \<open>A canonical MAC address, in the words of the specification: six octets of two
  upper-case hex digits, separated by colons.\<close>

definition isUpperHex :: "char \<Rightarrow> bool" where
  "isUpperHex c = (c \<in> set ''0123456789ABCDEF'')"

fun canonicalOctets :: "nat \<Rightarrow> string \<Rightarrow> bool" where
  "canonicalOctets 0 [a, b] = (isUpperHex a \<and> isUpperHex b)"
| "canonicalOctets (Suc n) (a # b # c # r) =
     (isUpperHex a \<and> isUpperHex b \<and> c = CHR '':'' \<and> canonicalOctets n r)"
| "canonicalOctets _ _ = False"

definition canonicalMac :: "string \<Rightarrow> bool" where
  "canonicalMac mac = canonicalOctets 5 mac"

subsection \<open>The round trip\<close>

lemma upperChar_upperHex_all: "\<forall>c \<in> set ''0123456789ABCDEF''. upperChar c = c"
  by (simp add: upperChar_def)

lemma upperChar_upperHex: "isUpperHex c \<Longrightarrow> upperChar c = c"
  using upperChar_upperHex_all unfolding isUpperHex_def by blast

lemma upperHex_facts_all:
  "\<forall>c \<in> set ''0123456789ABCDEF''.
     isHexDigit c \<and> c \<noteq> CHR '':'' \<and> c \<noteq> CHR ''-'' \<and> c \<noteq> CHR ''_''"
  by (simp add: isHexDigit_def)

lemma upperHex_facts:
  "isUpperHex c \<Longrightarrow> isHexDigit c \<and> c \<noteq> CHR '':'' \<and> c \<noteq> CHR ''-'' \<and> c \<noteq> CHR ''_''"
  using upperHex_facts_all unfolding isUpperHex_def by blast

lemma upperChar_separators:
  "upperChar (CHR ''_'') = CHR ''_''" "upperChar (CHR '':'') = CHR '':''"
  by (simp_all add: upperChar_def)

definition cleanMac :: "string \<Rightarrow> string" where
  "cleanMac mac = toUpperCase (replaceChars '':-'' (CHR ''_'') mac)"

lemma hexOctets_clean:
  "canonicalOctets n mac \<Longrightarrow> hexOctets n (cleanMac mac @ rest) = Some (cleanMac mac)"
proof (induction n mac rule: canonicalOctets.induct)
  case (1 a b)
  then show ?case
    using upperHex_facts[of a] upperHex_facts[of b]
    by (simp add: cleanMac_def toUpperCase_def replaceChars_def upperChar_upperHex)
next
  case (2 n a b c r)
  then have "hexOctets n (cleanMac r @ rest) = Some (cleanMac r)" by simp
  with 2 show ?case
    using upperHex_facts[of a] upperHex_facts[of b]
    by (simp add: cleanMac_def toUpperCase_def replaceChars_def upperChar_upperHex
        upperChar_separators)
qed simp_all

lemma clean_back:
  "canonicalOctets n mac \<Longrightarrow> toUpperCase (replaceChars ''_'' (CHR '':'') (cleanMac mac)) = mac"
proof (induction n mac rule: canonicalOctets.induct)
  case (1 a b)
  then show ?case
    using upperHex_facts[of a] upperHex_facts[of b]
    by (simp add: cleanMac_def toUpperCase_def replaceChars_def upperChar_upperHex)
next
  case (2 n a b c r)
  then have "toUpperCase (replaceChars ''_'' (CHR '':'') (cleanMac r)) = r" by simp
  with 2 show ?case
    using upperHex_facts[of a] upperHex_facts[of b]
    by (simp add: cleanMac_def toUpperCase_def replaceChars_def upperChar_upperHex
        upperChar_separators)
qed simp_all

lemma decimalNat_digits: "set (decimalNat n) \<subseteq> set ''0123456789''"
proof (induction n rule: decimalNat.induct)
  case (1 n)
  have d: "\<And>k. k < 10 \<Longrightarrow> digitChar k \<in> set ''0123456789''"
  proof -
    fix k :: nat assume "k < 10"
    then have "k \<in> {0, 1, 2, 3, 4, 5, 6, 7, 8, 9}" by auto
    then show "digitChar k \<in> set ''0123456789''"
      unfolding digitChar_def by (elim insertE emptyE) simp_all
  qed
  show ?case
  proof (cases "n < 10")
    case True
    then show ?thesis using d[of n] by (simp add: decimalNat.simps[of n])
  next
    case False
    then have "set (decimalNat (n div 10)) \<subseteq> set ''0123456789''" using 1 by simp
    moreover have "digitChar (n mod 10) \<in> set ''0123456789''" by (rule d) simp
    ultimately show ?thesis using False by (simp add: decimalNat.simps[of n])
  qed
qed

text \<open>No match of the pattern starts inside a prefix that has no letter \<open>d\<close>.\<close>

lemma devPatternSearch_skip:
  "CHR ''d'' \<notin> set pre \<Longrightarrow> devPatternSearch (pre @ s) = devPatternSearch s"
proof (induction pre)
  case Nil
  then show ?case by simp
next
  case (Cons c pre)
  from Cons.prems have "c \<noteq> CHR ''d''" by auto
  then have "devPatternAt (c # pre @ s) = None"
    by (simp add: devPatternAt_def startsWith_def)
  with Cons show ?case by simp
qed

lemma adapterPath_no_d: "CHR ''d'' \<notin> set (adapterPath hci @ ''/'')"
  using decimalNat_digits[of hci] by (auto simp: adapterPath_def)

text \<open>
  C9. For every canonical MAC address (upper case, colon-separated, six hex octets),
  converting it to a device path with \<open>macToDevicePath\<close> and back with
  \<open>devicePathToMac\<close> returns the original address, whatever the adapter index.
\<close>

theorem mac_path_roundtrip:
  assumes "canonicalMac mac"
  shows "devicePathToMac (macToDevicePath hci mac) = mac"
proof -
  from assms have c: "canonicalOctets 5 mac" by (simp add: canonicalMac_def)
  have path: "macToDevicePath hci mac = (adapterPath hci @ ''/'') @ (''dev_'' @ cleanMac mac)"
    by (simp add: macToDevicePath_def cleanMac_def)
  have at: "devPatternAt (''dev_'' @ cleanMac mac) = Some (cleanMac mac)"
    using hexOctets_clean[OF c, of "[]"] by (simp add: devPatternAt_def startsWith_def)
  have "devPatternSearch (''dev_'' @ cleanMac mac) = Some (cleanMac mac)"
    using at by simp
  then have "devPatternSearch (macToDevicePath hci mac) = Some (cleanMac mac)"
    unfolding path using devPatternSearch_skip[OF adapterPath_no_d] by simp
  then show ?thesis
    using clean_back[OF c] by (simp add: devicePathToMac_def)
qed

theorem mac_path_roundtrip_witness:
  "canonicalMac ''AA:BB:CC:DD:EE:FF'' \<and>
   macToDevicePath 0 ''AA:BB:CC:DD:EE:FF'' = ''/org/bluez/hci0/dev_AA_BB_CC_DD_EE_FF'' \<and>
   devicePathToMac (macToDevicePath 0 ''AA:BB:CC:DD:EE:FF'') = ''AA:BB:CC:DD:EE:FF''"
proof -
  have c: "canonicalMac ''AA:BB:CC:DD:EE:FF''"
    by (simp add: canonicalMac_def isUpperHex_def eval_nat_numeral)
  have p: "macToDevicePath 0 ''AA:BB:CC:DD:EE:FF'' = ''/org/bluez/hci0/dev_AA_BB_CC_DD_EE_FF''"
    by (simp add: macToDevicePath_def adapterPath_def toUpperCase_def replaceChars_def
        upperChar_def digitChar_def decimalNat.simps[of 0])
  show ?thesis using c p mac_path_roundtrip[OF c, of 0] by simp
qed

section \<open>The Hands-Free engine (hfpProfile.js)\<close>

subsection \<open>Events, promises and the connection record\<close>

text \<open>The events the engine emits, in the order of emission.\<close>

datatype hfp_event =
    PreConnect string
  | Connected string
  | Disconnected string
  | CallState string string string string
  | Indicator string string jsnum
  | BatteryLevel string jsnum
  | SignalStrength string jsnum
  | OperatorName string string
  | AgFeatures string jsnum

text \<open>How the promise of a command ends: resolved with the response, or rejected with
  the message of the error.\<close>

datatype outcome = Resolved string | Rejected string

text \<open>A queue entry \<^verbatim>\<open>{ cmd, resolve, reject }\<close>. The promise behind \<^verbatim>\<open>resolve\<close> and
  \<^verbatim>\<open>reject\<close> is named by its number in the order in which the commands of the
  connection were enqueued.\<close>

record entry =
  cmd :: string
  promise :: nat

text \<open>
  The connection object. \<open>written\<close> is what \<^verbatim>\<open>socket.write\<close> received, \<open>destroyed\<close> whether
  \<^verbatim>\<open>socket.destroy\<close> was called. \<open>cmdQueue\<close> and \<open>agFeatures\<close> are undefined until first
  set. \<open>pendingResolve\<close> and \<open>pendingReject\<close> are closures over the timer and the entry of
  the command they were made for. The runtime's share of the state is kept with the
  object: the armed command timers (\<open>atTimers\<close>, each with the entry its closure holds),
  the number of \<^verbatim>\<open>setImmediate\<close> callbacks waiting to call \<^verbatim>\<open>_sendNextCommand\<close>, whether
  the keepalive interval is set, and the promises settled so far, in the order of
  settling.
\<close>

record conn =
  written :: "string list"
  destroyed :: bool
  buffer :: string
  indicators :: "(string \<times> jsnum) list"
  indicatorMap :: "string list"
  slcReady :: bool
  mac :: string
  agFeatures :: "jsnum option"
  cmdQueue :: "entry list option"
  cmdInFlight :: bool
  pendingResolve :: "(nat \<times> entry) option"
  pendingReject :: "(nat \<times> entry) option"
  keepaliveTimer :: bool
  atTimers :: "(nat \<times> entry) list"
  timerCount :: nat
  immediates :: nat
  promises :: nat
  settled :: "(nat \<times> outcome) list"

text \<open>The object \<^verbatim>\<open>_onNewConnection\<close> creates.\<close>

definition newConn :: "string \<Rightarrow> conn" where
  "newConn m = \<lparr> written = [], destroyed = False, buffer = [], indicators = [],
     indicatorMap = [], slcReady = False, mac = m, agFeatures = None, cmdQueue = None,
     cmdInFlight = False, pendingResolve = None, pendingReject = None,
     keepaliveTimer = False, atTimers = [], timerCount = 0, immediates = 0, promises = 0,
     settled = [] \<rparr>"

text \<open>Settling a promise: the first call of \<^verbatim>\<open>resolve\<close> or \<^verbatim>\<open>reject\<close> decides, a later
  one does nothing.\<close>

definition settle :: "nat \<Rightarrow> outcome \<Rightarrow> conn \<Rightarrow> conn" where
  "settle p out c =
     (if p \<in> fst ` set (settled c) then c else c\<lparr>settled := settled c @ [(p, out)]\<rparr>)"

text \<open>Property assignment and lookup on the \<^verbatim>\<open>indicators\<close> object.\<close>

fun setProp :: "string \<Rightarrow> jsnum \<Rightarrow> (string \<times> jsnum) list \<Rightarrow> (string \<times> jsnum) list" where
  "setProp k v [] = [(k, v)]"
| "setProp k v ((k', v') # r) = (if k = k' then (k, v) # r else (k', v') # setProp k v r)"

definition getProp :: "(string \<times> jsnum) list \<Rightarrow> string \<Rightarrow> jsnum option" where
  "getProp obj k = map_of obj k"

subsection \<open>Reading numbers\<close>

definition digitValue :: "char \<Rightarrow> int" where
  "digitValue c = (case map_of (zip ''0123456789'' [0, 1, 2, 3, 4, 5, 6, 7, 8, 9]) c of
     Some d \<Rightarrow> d | None \<Rightarrow> 0)"

definition digitsValue :: "string \<Rightarrow> int" where
  "digitsValue ds = foldl (\<lambda>acc c. 10 * acc + digitValue c) 0 ds"

text \<open>\<^verbatim>\<open>parseInt(s, 10)\<close>: leading white space, a sign, then the longest run of digits;
  \<^verbatim>\<open>NaN\<close> without a digit.\<close>

definition parseInt :: "string \<Rightarrow> jsnum" where
  "parseInt s =
     (let t = dropWhile isSpace s;
          neg = (t \<noteq> [] \<and> hd t = CHR ''-'');
          u = (if t \<noteq> [] \<and> (hd t = CHR ''-'' \<or> hd t = CHR ''+'') then tl t else t);
          ds = takeWhile isDigit u
      in if ds = [] then NaN else Num (if neg then - digitsValue ds else digitsValue ds))"

text \<open>\<^verbatim>\<open>Number(s)\<close> on the text of an indicator value: white space only is 0, a signed
  decimal integer is its value. Any other text is \<^verbatim>\<open>NaN\<close> here (JavaScript also reads
  fractions, exponents, \<^verbatim>\<open>Infinity\<close> and radix prefixes, which are outside the numbers of
  this model).\<close>

definition numberOf :: "string \<Rightarrow> jsnum" where
  "numberOf s =
     (let t = trim s;
          neg = (t \<noteq> [] \<and> hd t = CHR ''-'');
          u = (if t \<noteq> [] \<and> (hd t = CHR ''-'' \<or> hd t = CHR ''+'') then tl t else t)
      in if t = [] then Num 0
         else if u \<noteq> [] \<and> list_all isDigit u
         then Num (if neg then - digitsValue u else digitsValue u)
         else NaN)"

subsection \<open>Indicators and the call state\<close>

text \<open>\<^verbatim>\<open>_emitIndicator\<close>: the generic event, then the specific one.\<close>

definition emitIndicator :: "string \<Rightarrow> string \<Rightarrow> jsnum \<Rightarrow> hfp_event list" where
  "emitIndicator m name v =
     Indicator m name v #
     (if name = ''battchg'' then [BatteryLevel m v]
      else if name = ''signal'' then [SignalStrength m v]
      else [])"

text \<open>\<^verbatim>\<open>_deriveCallState\<close>: a missing indicator counts as 0; the comparisons are strict.\<close>

definition deriveCallState :: "string \<Rightarrow> conn \<Rightarrow> hfp_event" where
  "deriveCallState m c =
     (let call = (case getProp (indicators c) ''call'' of Some v \<Rightarrow> v | None \<Rightarrow> Num 0);
          callsetup = (case getProp (indicators c) ''callsetup'' of Some v \<Rightarrow> v | None \<Rightarrow> Num 0);
          callheld = (case getProp (indicators c) ''callheld'' of Some v \<Rightarrow> v | None \<Rightarrow> Num 0);
          state =
            (if strictEq call (Num 1) \<and> strictEq callsetup (Num 0)
             then (if strictEq callheld (Num 2) then ''held'' else ''active'')
             else if strictEq callsetup (Num 1) then ''incoming''
             else if strictEq callsetup (Num 2) then ''dialing''
             else if strictEq callsetup (Num 3) then ''alerting''
             else if strictEq callheld (Num 2) then ''held''
             else ''idle'')
      in CallState m state [] [])"

definition isCallIndicator :: "string \<Rightarrow> bool" where
  "isCallIndicator name = (name = ''call'' \<or> name = ''callsetup'' \<or> name = ''callheld'')"

text \<open>The match of \<^verbatim>\<open>\("([^"]+)"\<close> at the start of a text: the name and what follows the
  closing quote.\<close>

definition indicatorNameAt :: "string \<Rightarrow> (string \<times> string) option" where
  "indicatorNameAt s =
     (case s of
        a # b # r \<Rightarrow>
          if a = CHR ''('' \<and> b = CHR 0x22
          then (let name = takeWhile (\<lambda>c. c \<noteq> CHR 0x22) r;
                    rest = dropWhile (\<lambda>c. c \<noteq> CHR 0x22) r
                in if name \<noteq> [] \<and> rest \<noteq> [] then Some (name, tl rest) else None)
          else None
      | _ \<Rightarrow> None)"

lemma indicatorNameAt_shorter:
  "indicatorNameAt s = Some (name, rest) \<Longrightarrow> length rest < length s"
proof -
  assume a: "indicatorNameAt s = Some (name, rest)"
  then obtain x y r where s: "s = x # y # r"
    by (cases s; cases "tl s") (auto simp: indicatorNameAt_def)
  from a s have "rest = tl (dropWhile (\<lambda>c. c \<noteq> CHR 0x22) r)"
    by (auto simp: indicatorNameAt_def Let_def split: if_splits)
  moreover have "length (dropWhile (\<lambda>c. c \<noteq> CHR 0x22) r) \<le> length r"
    by (rule length_dropWhile_le)
  ultimately show ?thesis using s by simp
qed

text \<open>The loop of \<^verbatim>\<open>regex.exec\<close> with the global flag: after a match the search goes on
  behind it.\<close>

function indicatorNames :: "string \<Rightarrow> string list" where
  "indicatorNames [] = []"
| "indicatorNames (c # cs) =
     (case indicatorNameAt (c # cs) of
        Some (name, rest) \<Rightarrow> toLowerCase name # indicatorNames rest
      | None \<Rightarrow> indicatorNames cs)"
  by pat_completeness auto
termination
  by (relation "measure length") (auto dest: indicatorNameAt_shorter)

declare indicatorNames.simps [simp del]

text \<open>\<^verbatim>\<open>_parseIndicatorDefinitions\<close>.\<close>

definition parseIndicatorDefinitions :: "string \<Rightarrow> conn \<Rightarrow> conn" where
  "parseIndicatorDefinitions str c = c\<lparr>indicatorMap := indicatorNames str\<rparr>"

text \<open>The loop of \<^verbatim>\<open>_processIndicatorValues\<close> over the values and the names together; the
  result is the connection, the events and whether a call indicator changed.\<close>

fun indicatorValuesLoop ::
  "string \<Rightarrow> jsnum list \<Rightarrow> string list \<Rightarrow> conn \<Rightarrow> conn \<times> hfp_event list \<times> bool" where
  "indicatorValuesLoop m (v # vs) (name # names) c =
     (let prev = getProp (indicators c) name;
          c1 = c\<lparr>indicators := setProp name v (indicators c)\<rparr>;
          changed = (isCallIndicator name \<and>
                     \<not> (case prev of Some p \<Rightarrow> strictEq p v | None \<Rightarrow> False));
          (c2, evs, callChanged) = indicatorValuesLoop m vs names c1
      in (c2, emitIndicator m name v @ evs, changed \<or> callChanged))"
| "indicatorValuesLoop m _ _ c = (c, [], False)"

definition processIndicatorValues :: "string \<Rightarrow> jsnum list \<Rightarrow> conn \<Rightarrow> conn \<times> hfp_event list" where
  "processIndicatorValues m vals c =
     (let (c1, evs, callChanged) = indicatorValuesLoop m vals (indicatorMap c) c
      in (c1, evs @ (if callChanged then [deriveCallState m c1] else [])))"

text \<open>\<^verbatim>\<open>_processIndicatorEvent\<close>: the index counts from 1; an index without a name in the
  table (also \<^verbatim>\<open>NaN\<close>) is logged and ignored.\<close>

definition indicatorNameOf :: "conn \<Rightarrow> jsnum \<Rightarrow> string option" where
  "indicatorNameOf c idx =
     (case idx of
        NaN \<Rightarrow> None
      | Num i \<Rightarrow> if 1 \<le> i \<and> nat (i - 1) < length (indicatorMap c)
                 then Some (indicatorMap c ! nat (i - 1)) else None)"

definition processIndicatorEvent :: "string \<Rightarrow> jsnum \<Rightarrow> jsnum \<Rightarrow> conn \<Rightarrow> conn \<times> hfp_event list" where
  "processIndicatorEvent m idx val c =
     (case indicatorNameOf c idx of
        None \<Rightarrow> (c, [])
      | Some name \<Rightarrow>
          if name = [] then (c, [])
          else (let c1 = c\<lparr>indicators := setProp name val (indicators c)\<rparr>
                in (c1, emitIndicator m name val @
                        (if isCallIndicator name then [deriveCallState m c1] else []))))"

subsection \<open>The command queue\<close>

text \<open>\<^verbatim>\<open>conn._cmdQueue.shift()\<close>; on an empty queue it removes nothing. The closures that
  call it exist only after a command was sent, when the queue exists.\<close>

definition shiftQueue :: "conn \<Rightarrow> conn" where
  "shiftQueue c = c\<lparr>cmdQueue := map_option tl (cmdQueue c)\<rparr>"

definition clearTimeout :: "nat \<Rightarrow> conn \<Rightarrow> conn" where
  "clearTimeout t c = c\<lparr>atTimers := filter (\<lambda>x. fst x \<noteq> t) (atTimers c)\<rparr>"

text \<open>\<^verbatim>\<open>_sendNextCommand\<close>: nothing without a queued command, nothing while a command is
  in flight; else the head is marked in flight, its timer armed, the two closures
  stored and the command written with a carriage return.\<close>

definition sendNextCommand :: "string \<Rightarrow> conn \<Rightarrow> conn" where
  "sendNextCommand m c =
     (case cmdQueue c of
        None \<Rightarrow> c
      | Some [] \<Rightarrow> c
      | Some (e # q) \<Rightarrow>
          if cmdInFlight c then c
          else c\<lparr> cmdInFlight := True,
                  atTimers := atTimers c @ [(timerCount c, e)],
                  timerCount := Suc (timerCount c),
                  pendingResolve := Some (timerCount c, e),
                  pendingReject := Some (timerCount c, e),
                  written := written c @ [cmd e @ [CHR 0x0D]] \<rparr>)"



text \<open>The closures \<^verbatim>\<open>conn._pendingResolve\<close> and \<^verbatim>\<open>conn._pendingReject\<close>, made for timer
  \<open>t\<close> and entry \<open>e\<close>: both end with a \<^verbatim>\<open>setImmediate\<close> of \<^verbatim>\<open>_sendNextCommand\<close>.\<close>

definition callPendingResolve :: "nat \<times> entry \<Rightarrow> string \<Rightarrow> conn \<Rightarrow> conn" where
  "callPendingResolve te response c =
     (let c1 = clearTimeout (fst te) c;
          c2 = shiftQueue c1;
          c3 = c2\<lparr>cmdInFlight := False\<rparr>;
          c4 = settle (promise (snd te)) (Resolved response) c3
      in c4\<lparr>immediates := Suc (immediates c4)\<rparr>)"

definition callPendingReject :: "nat \<times> entry \<Rightarrow> string \<Rightarrow> conn \<Rightarrow> conn" where
  "callPendingReject te err c =
     (let c1 = clearTimeout (fst te) c;
          c2 = shiftQueue c1;
          c3 = c2\<lparr>cmdInFlight := False\<rparr>;
          c4 = settle (promise (snd te)) (Rejected err) c3
      in c4\<lparr>immediates := Suc (immediates c4)\<rparr>)"


text \<open>The executor of the promise \<^verbatim>\<open>_sendCommand\<close> returns, on the connection found:
  the queue is created when missing, the entry appended, and the sending kicked when the
  entry is the only one.\<close>

definition pushCommand :: "string \<Rightarrow> string \<Rightarrow> conn \<Rightarrow> conn" where
  "pushCommand m command c =
     (let q = (case cmdQueue c of None \<Rightarrow> [] | Some q \<Rightarrow> q) @
              [\<lparr>cmd = command, promise = promises c\<rparr>];
          c1 = c\<lparr>cmdQueue := Some q, promises := Suc (promises c)\<rparr>
      in if length q = 1 then sendNextCommand m c1 else c1)"

subsection \<open>Classifying a received line\<close>

text \<open>\<^verbatim>\<open>line.split(':')[1]\<close>. Every line it is applied to starts with a prefix that
  ends in a colon, so the second piece exists.\<close>

definition afterColon :: "string \<Rightarrow> string" where
  "afterColon line = (case splitOn (CHR '':'') line of _ # p # _ \<Rightarrow> p | _ \<Rightarrow> [])"

text \<open>Pieces of the regular expressions, each matched at the start of a text and giving
  the captured text and the rest: a quoted text \<^verbatim>\<open>"([^"]*)"\<close>, digits \<^verbatim>\<open>(\d+)\<close>, and a
  comma before digits.\<close>

definition quotedAt :: "string \<Rightarrow> (string \<times> string) option" where
  "quotedAt s =
     (case s of
        [] \<Rightarrow> None
      | q # r \<Rightarrow>
          if q = CHR 0x22
          then (let body = takeWhile (\<lambda>c. c \<noteq> CHR 0x22) r;
                    rest = dropWhile (\<lambda>c. c \<noteq> CHR 0x22) r
                in if rest = [] then None else Some (body, tl rest))
          else None)"

definition digitsAt :: "string \<Rightarrow> (string \<times> string) option" where
  "digitsAt s =
     (let ds = takeWhile isDigit s
      in if ds = [] then None else Some (ds, dropWhile isDigit s))"

definition commaDigits :: "string \<Rightarrow> (string \<times> string) option" where
  "commaDigits s =
     (case s of [] \<Rightarrow> None | c # r \<Rightarrow> if c = CHR '','' then digitsAt r else None)"

text \<open>An unanchored regular expression: the leftmost position where it matches.\<close>

fun firstMatch :: "(string \<Rightarrow> 'a option) \<Rightarrow> string \<Rightarrow> 'a option" where
  "firstMatch f [] = f []"
| "firstMatch f (c # cs) =
     (case f (c # cs) of Some r \<Rightarrow> Some r | None \<Rightarrow> firstMatch f cs)"

text \<open>\<^verbatim>\<open>\+CLIP:\s*"([^"]*)",(\d+)(?:,,"([^"]*)")?\<close>: the number and the name (empty when the
  optional group does not match).\<close>

definition clipAt :: "string \<Rightarrow> (string \<times> string) option" where
  "clipAt s =
     (if startsWith s ''+CLIP:''
      then (case quotedAt (dropWhile isSpace (drop 6 s)) of
              None \<Rightarrow> None
            | Some (number, r1) \<Rightarrow>
                (case commaDigits r1 of
                   None \<Rightarrow> None
                 | Some (_, r2) \<Rightarrow>
                     Some (number,
                       if startsWith r2 '',,''
                       then (case quotedAt (drop 2 r2) of Some (name, _) \<Rightarrow> name | None \<Rightarrow> [])
                       else [])))
      else None)"

text \<open>\<^verbatim>\<open>\+CCWA:\s*"([^"]*)",(\d+)\<close>: the number.\<close>

definition ccwaAt :: "string \<Rightarrow> string option" where
  "ccwaAt s =
     (if startsWith s ''+CCWA:''
      then (case quotedAt (dropWhile isSpace (drop 6 s)) of
              None \<Rightarrow> None
            | Some (number, r1) \<Rightarrow>
                (case commaDigits r1 of None \<Rightarrow> None | Some _ \<Rightarrow> Some number))
      else None)"

text \<open>\<^verbatim>\<open>\+CLCC:\s*(\d+),(\d+),(\d+),(\d+),(\d+)(?:,"([^"]*)",(\d+))?\<close>: the digits of the
  status and the number (empty when the optional group does not match).\<close>

definition clccAt :: "string \<Rightarrow> (string \<times> string) option" where
  "clccAt s =
     (if startsWith s ''+CLCC:''
      then (case digitsAt (dropWhile isSpace (drop 6 s)) of
              None \<Rightarrow> None
            | Some (_, r1) \<Rightarrow>
          (case commaDigits r1 of
              None \<Rightarrow> None
            | Some (_, r2) \<Rightarrow>
          (case commaDigits r2 of
              None \<Rightarrow> None
            | Some (stat, r3) \<Rightarrow>
          (case commaDigits r3 of
              None \<Rightarrow> None
            | Some (_, r4) \<Rightarrow>
          (case commaDigits r4 of
              None \<Rightarrow> None
            | Some (_, r5) \<Rightarrow>
                Some (stat,
                  (case r5 of
                     [] \<Rightarrow> []
                   | c # r6 \<Rightarrow>
                       if c = CHR '',''
                       then (case quotedAt r6 of
                               None \<Rightarrow> []
                             | Some (number, r7) \<Rightarrow>
                                 (case commaDigits r7 of None \<Rightarrow> [] | Some _ \<Rightarrow> number))
                       else [])))))))
      else None)"

text \<open>\<^verbatim>\<open>_processClcc\<close>: the status selects the label; a status beyond the table is
  \<^verbatim>\<open>unknown\<close>.\<close>

definition processClcc :: "string \<Rightarrow> string \<Rightarrow> hfp_event list" where
  "processClcc m line =
     (case firstMatch clccAt line of
        None \<Rightarrow> []
      | Some (stat, number) \<Rightarrow>
          (let states = [''active'', ''held'', ''dialing'', ''alerting'', ''incoming'', ''waiting''];
               i = nat (digitsValue stat);
               state = (if i < length states then states ! i else ''unknown'')
           in [CallState m state number []]))"

text \<open>The kinds of line \<^verbatim>\<open>_processLine\<close> tells apart, and its tests in the order of the
  source: the first test that holds decides.\<close>

datatype line_kind =
    FinalOk | FinalError | Brsf | Chld | Bind | CindDefinitions | CindValues | Ciev
  | Clip | Ccwa | Clcc | Cops | Ring | NoCarrier | Bcs | Volume | Unknown

definition classify :: "string \<Rightarrow> line_kind" where
  "classify line =
     (if line = ''OK'' then FinalOk
      else if startsWith line ''ERROR'' \<or> startsWith line ''+CME ERROR'' then FinalError
      else if startsWith line ''+BRSF:'' then Brsf
      else if startsWith line ''+CHLD:'' then Chld
      else if startsWith line ''+BIND:'' then Bind
      else if startsWith line ''+CIND:'' \<and> CHR ''('' \<in> set line then CindDefinitions
      else if startsWith line ''+CIND:'' \<and> CHR ''('' \<notin> set line then CindValues
      else if startsWith line ''+CIEV:'' then Ciev
      else if startsWith line ''+CLIP:'' then Clip
      else if startsWith line ''+CCWA:'' then Ccwa
      else if startsWith line ''+CLCC:'' then Clcc
      else if startsWith line ''+COPS:'' then Cops
      else if line = ''RING'' then Ring
      else if line = ''NO CARRIER'' then NoCarrier
      else if startsWith line ''+BCS:'' then Bcs
      else if startsWith line ''+VGS:'' \<or> startsWith line ''+VGM:'' then Volume
      else Unknown)"

text \<open>\<^verbatim>\<open>_processLine\<close>: what the branch of each kind does. The result is the connection
  and the events emitted.\<close>

definition processLine :: "string \<Rightarrow> string \<Rightarrow> conn \<Rightarrow> conn \<times> hfp_event list" where
  "processLine m line c =
     (case classify line of
        FinalOk \<Rightarrow>
          (case pendingResolve c of
             None \<Rightarrow> (c, [])
           | Some te \<Rightarrow>
               ((callPendingResolve te ''OK'' c)\<lparr>pendingResolve := None, pendingReject := None\<rparr>, []))
      | FinalError \<Rightarrow>
          (case pendingReject c of
             None \<Rightarrow> (c, [])
           | Some te \<Rightarrow>
               ((callPendingReject te line c)\<lparr>pendingResolve := None, pendingReject := None\<rparr>, []))
      | Brsf \<Rightarrow>
          (let features = parseInt (trim (afterColon line))
           in (c\<lparr>agFeatures := Some features\<rparr>, [AgFeatures m features]))
      | Chld \<Rightarrow> (c, [])
      | Bind \<Rightarrow> (c, [])
      | CindDefinitions \<Rightarrow>
          (parseIndicatorDefinitions
             (takeWhile (\<lambda>x. x \<noteq> CHR 0x0A) (dropWhile isSpace (drop 6 line))) c, [])
      | CindValues \<Rightarrow>
          processIndicatorValues m (map numberOf (splitOn (CHR '','') (trim (afterColon line)))) c
      | Ciev \<Rightarrow>
          (let parts = splitOn (CHR '','') (trim (afterColon line));
               idx = (case parts of [] \<Rightarrow> NaN | p # _ \<Rightarrow> parseInt p);
               val = (case parts of _ # p # _ \<Rightarrow> parseInt p | _ \<Rightarrow> NaN)
           in processIndicatorEvent m idx val c)
      | Clip \<Rightarrow>
          (case firstMatch clipAt line of
             None \<Rightarrow> (c, [])
           | Some (number, name) \<Rightarrow> (c, [CallState m ''incoming'' number name]))
      | Ccwa \<Rightarrow>
          (case firstMatch ccwaAt line of
             None \<Rightarrow> (c, [])
           | Some number \<Rightarrow> (c, [CallState m ''waiting'' number []]))
      | Clcc \<Rightarrow> (c, processClcc m line)
      | Cops \<Rightarrow>
          (case firstMatch quotedAt line of
             None \<Rightarrow> (c, [])
           | Some (name, _) \<Rightarrow> (c, [OperatorName m name]))
      | Ring \<Rightarrow> (c, [CallState m ''ringing'' [] []])
      | NoCarrier \<Rightarrow> (c, [CallState m ''idle'' [] []])
      | Bcs \<Rightarrow>
          (c\<lparr>written := written c @ [''AT+BCS='' @ trim (afterColon line) @ [CHR 0x0D]]\<rparr>, [])
      | Volume \<Rightarrow> (c, [])
      | Unknown \<Rightarrow> (c, []))"

text \<open>Splitting at \<^verbatim>\<open>/\r\n|\r/\<close>: at every carriage return, which takes a line feed
  right behind it along.\<close>

definition dropLineFeed :: "string \<Rightarrow> string" where
  "dropLineFeed p = (case p of [] \<Rightarrow> [] | x # r \<Rightarrow> if x = CHR 0x0A then r else p)"

definition splitLines :: "string \<Rightarrow> string list" where
  "splitLines s = (case splitOn (CHR 0x0D) s of [] \<Rightarrow> [[]] | p # ps \<Rightarrow> p # map dropLineFeed ps)"

text \<open>The loop of \<^verbatim>\<open>_onData\<close> over the complete lines: each is trimmed, an empty one
  skipped.\<close>

fun processLines :: "string \<Rightarrow> string list \<Rightarrow> conn \<Rightarrow> conn \<times> hfp_event list" where
  "processLines m [] c = (c, [])"
| "processLines m (l # ls) c =
     (let trimmed = trim l
      in if trimmed = [] then processLines m ls c
         else (let (c1, evs1) = processLine m trimmed c;
                   (c2, evs2) = processLines m ls c1
               in (c2, evs1 @ evs2)))"

text \<open>\<^verbatim>\<open>_onData\<close> on the connection found: the text joins the buffer, the last piece
  stays there as the incomplete line.\<close>

definition receive :: "string \<Rightarrow> string \<Rightarrow> conn \<Rightarrow> conn \<times> hfp_event list" where
  "receive m chunk c =
     (let ls = splitLines (buffer c @ chunk);
          c1 = c\<lparr>buffer := (if ls = [] then [] else last ls)\<rparr>
      in processLines m (butlast ls) c1)"

subsection \<open>The profile object: connections by MAC, call control, teardown\<close>

text \<open>
  \<open>connections\<close> is the map \<^verbatim>\<open>this._connections\<close>, \<open>emitted\<close> the events emitted so far.
  A connection object that left the map lives on in the closures of its socket and
  timers. \<open>closed\<close> keeps the objects \<^verbatim>\<open>_cleanup\<close> removed, in the state it left them in;
  \<open>replaced\<close> keeps the objects whose record was overwritten by a new connection of the
  same MAC, as they were at that moment.
\<close>

record hfp =
  connections :: "string \<rightharpoonup> conn"
  emitted :: "hfp_event list"
  closed :: "conn list"
  replaced :: "conn list"

text \<open>\<^verbatim>\<open>_normalise\<close>: dashes become colons, letters upper case.\<close>

definition normalise :: "string \<Rightarrow> string" where
  "normalise m = toUpperCase (replaceChars ''-'' (CHR '':'') m)"

text \<open>\<^verbatim>\<open>_devicePathToMac\<close> of the profile: the first \<^verbatim>\<open>dev_\<close> followed by 17 hex digits
  or underscores; a path without one is returned as it is.\<close>

definition hfpDevAt :: "string \<Rightarrow> string option" where
  "hfpDevAt s =
     (if startsWith s ''dev_''
      then (let b = take 17 (drop 4 s)
            in if length b = 17 \<and> list_all (\<lambda>x. isHexDigit x \<or> x = CHR ''_'') b
               then Some b else None)
      else None)"

definition hfpDevicePathToMac :: "string \<Rightarrow> string" where
  "hfpDevicePathToMac path =
     (case firstMatch hfpDevAt path of
        None \<Rightarrow> path
      | Some b \<Rightarrow> toUpperCase (replaceChars ''_'' (CHR '':'') b))"

text \<open>\<^verbatim>\<open>_sendCommand\<close>: without a connection for the MAC the promise is rejected at once
  (\<open>Inl\<close> the message) and nothing else happens; else the command joins the queue of the
  connection and the promise is pending (\<open>Inr\<close> its number).\<close>

definition sendCommand :: "string \<Rightarrow> string \<Rightarrow> hfp \<Rightarrow> (string + nat) \<times> hfp" where
  "sendCommand m command w =
     (let key = normalise m
      in case connections w key of
           None \<Rightarrow> (Inl (''No HFP connection for '' @ m), w)
         | Some c \<Rightarrow>
             (Inr (promises c),
              w\<lparr>connections := (connections w)(key \<mapsto> pushCommand m command c)\<rparr>))"

text \<open>The call-control operations: each awaits one \<^verbatim>\<open>_sendCommand\<close>.\<close>

definition answer :: "string \<Rightarrow> hfp \<Rightarrow> (string + nat) \<times> hfp" where
  "answer m w = sendCommand m ''ATA'' w"

definition hangup :: "string \<Rightarrow> hfp \<Rightarrow> (string + nat) \<times> hfp" where
  "hangup m w = sendCommand m ''AT+CHUP'' w"

definition reject :: "string \<Rightarrow> hfp \<Rightarrow> (string + nat) \<times> hfp" where
  "reject m w = sendCommand m ''AT+CHUP'' w"

definition dial :: "string \<Rightarrow> string \<Rightarrow> hfp \<Rightarrow> (string + nat) \<times> hfp" where
  "dial m number w =
     (let clean = filter (\<lambda>x. x \<in> set ''0123456789+*#'') number
      in sendCommand m (''ATD'' @ clean @ '';'') w)"

definition redial :: "string \<Rightarrow> hfp \<Rightarrow> (string + nat) \<times> hfp" where
  "redial m w = sendCommand m ''AT+BLDN'' w"

definition sendRawAT :: "string \<Rightarrow> string \<Rightarrow> hfp \<Rightarrow> (string + nat) \<times> hfp" where
  "sendRawAT m command w = sendCommand m command w"

definition sendDTMF :: "string \<Rightarrow> string \<Rightarrow> hfp \<Rightarrow> (string + nat) \<times> hfp" where
  "sendDTMF m tone w = sendCommand m (''AT+VTS='' @ tone) w"

definition queryCurrentCalls :: "string \<Rightarrow> hfp \<Rightarrow> (string + nat) \<times> hfp" where
  "queryCurrentCalls m w = sendCommand m ''AT+CLCC'' w"

text \<open>\<^verbatim>\<open>setVolume\<close>: the volume is clamped to 0..15; \<^verbatim>\<open>NaN\<close> passes the clamp.\<close>

definition setVolume :: "string \<Rightarrow> jsnum \<Rightarrow> hfp \<Rightarrow> (string + nat) \<times> hfp" where
  "setVolume m vol w =
     (let v = (case vol of NaN \<Rightarrow> NaN | Num i \<Rightarrow> Num (max 0 (min 15 i)))
      in sendCommand m (''AT+VGS='' @ showNum v) w)"

text \<open>\<^verbatim>\<open>_onData\<close>: data for a MAC without a connection is dropped.\<close>

definition onData :: "string \<Rightarrow> string \<Rightarrow> hfp \<Rightarrow> hfp" where
  "onData m chunk w =
     (let key = normalise m
      in case connections w key of
           None \<Rightarrow> w
         | Some c \<Rightarrow>
             (let (c1, evs) = receive m chunk c
              in w\<lparr>connections := (connections w)(key \<mapsto> c1), emitted := emitted w @ evs\<rparr>))"

text \<open>The loop of \<^verbatim>\<open>_cleanup\<close> that rejects the queued entries, head first.\<close>

fun rejectAll :: "entry list \<Rightarrow> conn \<Rightarrow> conn" where
  "rejectAll [] c = c"
| "rejectAll (e # es) c = rejectAll es (settle (promise e) (Rejected ''HFP connection closed'') c)"

text \<open>What \<^verbatim>\<open>_cleanup\<close> does to the connection object it found.\<close>

definition closeConn :: "conn \<Rightarrow> conn" where
  "closeConn c =
     (let c1 = c\<lparr>keepaliveTimer := False\<rparr>;
          c2 = (case cmdQueue c1 of
                  None \<Rightarrow> c1
                | Some q \<Rightarrow> (rejectAll q c1)\<lparr>cmdQueue := Some []\<rparr>)
      in c2\<lparr>destroyed := True\<rparr>)"

text \<open>\<^verbatim>\<open>_cleanup\<close>: without a connection for the MAC nothing happens; else the object is
  closed, the record removed and \<^verbatim>\<open>disconnected\<close> emitted with the MAC as given.\<close>

definition cleanup :: "string \<Rightarrow> hfp \<Rightarrow> hfp" where
  "cleanup m w =
     (let key = normalise m
      in case connections w key of
           None \<Rightarrow> w
         | Some c \<Rightarrow>
             w\<lparr> connections := (connections w)(key := None),
                closed := closed w @ [closeConn c],
                emitted := emitted w @ [Disconnected m] \<rparr>)"

text \<open>The three triggers of teardown. The socket handlers are closures over the MAC of
  the connection; the disconnect request computes it from the device path, as
  \<^verbatim>\<open>_onNewConnection\<close> did.\<close>

datatype trigger = ChannelError | ChannelClose | DisconnectRequest

definition onSocketError :: "string \<Rightarrow> hfp \<Rightarrow> hfp" where
  "onSocketError m w = cleanup m w"

definition onSocketClose :: "string \<Rightarrow> hfp \<Rightarrow> hfp" where
  "onSocketClose m w = cleanup m w"

definition onRequestDisconnection :: "string \<Rightarrow> hfp \<Rightarrow> hfp" where
  "onRequestDisconnection devicePath w = cleanup (hfpDevicePathToMac devicePath) w"

text \<open>\<^verbatim>\<open>_onNewConnection\<close> with a socket that could be wrapped: \<^verbatim>\<open>preConnect\<close> is emitted,
  the new object is stored under the MAC with \<^verbatim>\<open>this._connections.set\<close>, whether or not
  the MAC has a record already (an object it had is overwritten in the map and nothing
  is done to it), and \<^verbatim>\<open>_initSLC\<close> enqueues its first command, the feature exchange with
  the bitmask 183.\<close>

definition onNewConnection :: "string \<Rightarrow> hfp \<Rightarrow> hfp" where
  "onNewConnection devicePath w =
     (let m = hfpDevicePathToMac devicePath;
          w1 = w\<lparr>emitted := emitted w @ [PreConnect m]\<rparr>;
          w2 = w1\<lparr>replaced := replaced w1 @
                     (case connections w1 (normalise m) of None \<Rightarrow> [] | Some old \<Rightarrow> [old]),
                  connections := (connections w1)(normalise m \<mapsto> newConn m)\<rparr>
      in snd (sendCommand m ''AT+BRSF=183'' w2))"

text \<open>One teardown trigger for the connection that was made for a device path.\<close>

fun teardown :: "string \<Rightarrow> trigger \<Rightarrow> hfp \<Rightarrow> hfp" where
  "teardown devicePath ChannelError w = onSocketError (hfpDevicePathToMac devicePath) w"
| "teardown devicePath ChannelClose w = onSocketClose (hfpDevicePathToMac devicePath) w"
| "teardown devicePath DisconnectRequest w = onRequestDisconnection devicePath w"

section \<open>Properties of the Hands-Free engine\<close>

subsection \<open>The call-state table\<close>

text \<open>The table in the words of the specification, on the values of the three
  indicators \<open>call\<close>, \<open>callsetup\<close> and \<open>callheld\<close>.\<close>

definition callStateTable :: "int \<Rightarrow> int \<Rightarrow> int \<Rightarrow> string" where
  "callStateTable call callsetup callheld =
     (if call = 1 \<and> callsetup = 0 then (if callheld = 2 then ''held'' else ''active'')
      else if callsetup = 1 then ''incoming''
      else if callsetup = 2 then ''dialing''
      else if callsetup = 3 then ''alerting''
      else if callheld = 2 then ''held''
      else ''idle'')"

text \<open>An indicator object that holds the given ones of the three indicators; \<open>None\<close> is
  a missing indicator.\<close>

definition indicatorsOf :: "int option \<Rightarrow> int option \<Rightarrow> int option \<Rightarrow> (string \<times> jsnum) list" where
  "indicatorsOf call callsetup callheld =
     (case call of None \<Rightarrow> [] | Some v \<Rightarrow> [(''call'', Num v)]) @
     (case callsetup of None \<Rightarrow> [] | Some v \<Rightarrow> [(''callsetup'', Num v)]) @
     (case callheld of None \<Rightarrow> [] | Some v \<Rightarrow> [(''callheld'', Num v)])"

definition orZero :: "int option \<Rightarrow> int" where
  "orZero v = (case v of None \<Rightarrow> 0 | Some i \<Rightarrow> i)"

definition stateOf :: "hfp_event \<Rightarrow> string" where
  "stateOf e = (case e of CallState _ s _ _ \<Rightarrow> s | _ \<Rightarrow> [])"

lemma deriveCallState_refines_table:
  "deriveCallState m (c\<lparr>indicators := indicatorsOf oc os oh\<rparr>) =
     CallState m (callStateTable (orZero oc) (orZero os) (orZero oh)) [] []"
  by (cases oc; cases os; cases oh)
     (simp_all add: deriveCallState_def indicatorsOf_def orZero_def callStateTable_def
        getProp_def Let_def)

text \<open>
  C2. For every combination of the indicator values, \<open>call\<close> in 0..1, \<open>callsetup\<close> in 0..3
  and \<open>callheld\<close> in 0..2, a missing indicator counting as 0, the derived call-state
  label is the one of the fixed-precedence table. The first part holds for all integer
  values and for every choice of missing indicators; the second part lists the 24
  labels, \<open>call\<close> varying slowest and \<open>callheld\<close> fastest.
\<close>

theorem call_state_table:
  "deriveCallState m (c\<lparr>indicators := indicatorsOf oc os oh\<rparr>) =
     CallState m (callStateTable (orZero oc) (orZero os) (orZero oh)) [] [] \<and>
   map (\<lambda>(call, callsetup, callheld).
          stateOf (deriveCallState m
            (c\<lparr>indicators := indicatorsOf (Some call) (Some callsetup) (Some callheld)\<rparr>)))
       (List.product [0, 1] (List.product [0, 1, 2, 3] [0, 1, 2])) =
   [''idle'', ''idle'', ''held'', ''incoming'', ''incoming'', ''incoming'',
    ''dialing'', ''dialing'', ''dialing'', ''alerting'', ''alerting'', ''alerting'',
    ''active'', ''active'', ''held'', ''incoming'', ''incoming'', ''incoming'',
    ''dialing'', ''dialing'', ''dialing'', ''alerting'', ''alerting'', ''alerting'']"
proof
  show "deriveCallState m (c\<lparr>indicators := indicatorsOf oc os oh\<rparr>) =
     CallState m (callStateTable (orZero oc) (orZero os) (orZero oh)) [] []"
    by (rule deriveCallState_refines_table)
next
  show "map (\<lambda>(call, callsetup, callheld).
          stateOf (deriveCallState m
            (c\<lparr>indicators := indicatorsOf (Some call) (Some callsetup) (Some callheld)\<rparr>)))
       (List.product [0, 1] (List.product [0, 1, 2, 3] [0, 1, 2])) =
   [''idle'', ''idle'', ''held'', ''incoming'', ''incoming'', ''incoming'',
    ''dialing'', ''dialing'', ''dialing'', ''alerting'', ''alerting'', ''alerting'',
    ''active'', ''active'', ''held'', ''incoming'', ''incoming'', ''incoming'',
    ''dialing'', ''dialing'', ''dialing'', ''alerting'', ''alerting'', ''alerting'']"
    by (simp add: deriveCallState_refines_table callStateTable_def orZero_def stateOf_def)
qed

subsection \<open>Indicator definitions and values\<close>

definition isBatteryLevel :: "hfp_event \<Rightarrow> bool" where
  "isBatteryLevel e = (case e of BatteryLevel _ _ \<Rightarrow> True | _ \<Rightarrow> False)"

lemma indicatorNames_example:
  \<open>indicatorNames ''("call",(0,1)),("callsetup",(0-3)),("battchg",(0-5))'' =
     [''call'', ''callsetup'', ''battchg'']\<close>
  by (simp add: indicatorNames.simps indicatorNameAt_def toLowerCase_def lowerChar_def)

lemma definition_line_example:
  \<open>processLine m ''+CIND: ("call",(0,1)),("callsetup",(0-3)),("battchg",(0-5))'' (c\<lparr>buffer := []\<rparr>) =
     (c\<lparr>buffer := [], indicatorMap := [''call'', ''callsetup'', ''battchg'']\<rparr>, [])\<close>
  by (simp add: processLine_def classify_def startsWith_def parseIndicatorDefinitions_def
      isSpace_def indicatorNames_example)

lemma value_line_numbers:
  "map numberOf (splitOn (CHR '','') (trim (afterColon ''+CIND: 0,0,3''))) = [Num 0, Num 0, Num 3]"
  by (simp add: afterColon_def trim_def isSpace_def numberOf_def isDigit_def digitsValue_def
      digitValue_def)

lemma value_line_example:
  \<open>processLine m ''+CIND: 0,0,3''
     ((newConn m)\<lparr>buffer := [], indicatorMap := [''call'', ''callsetup'', ''battchg'']\<rparr>) =
     ((newConn m)\<lparr>buffer := [], indicatorMap := [''call'', ''callsetup'', ''battchg''],
        indicators := [(''call'', Num 0), (''callsetup'', Num 0), (''battchg'', Num 3)]\<rparr>,
      [Indicator m ''call'' (Num 0), Indicator m ''callsetup'' (Num 0),
       Indicator m ''battchg'' (Num 3), BatteryLevel m (Num 3), CallState m ''idle'' [] []])\<close>
proof -
  have k: "classify ''+CIND: 0,0,3'' = CindValues"
    by (simp add: classify_def startsWith_def)
  show ?thesis
    unfolding processLine_def k value_line_numbers
    by (simp add: processIndicatorValues_def newConn_def getProp_def
        emitIndicator_def isCallIndicator_def deriveCallState_def Let_def)
qed

lemma two_lines_split:
  \<open>splitLines ([] @ ''+CIND: ("call",(0,1)),("callsetup",(0-3)),("battchg",(0-5))'' @
      [CHR 0x0D, CHR 0x0A] @ ''+CIND: 0,0,3'' @ [CHR 0x0D, CHR 0x0A]) =
     [''+CIND: ("call",(0,1)),("callsetup",(0-3)),("battchg",(0-5))'', ''+CIND: 0,0,3'', []]\<close>
  by (simp add: splitLines_def dropLineFeed_def)

lemma two_lines_trim:
  \<open>trim ''+CIND: ("call",(0,1)),("callsetup",(0-3)),("battchg",(0-5))'' =
     ''+CIND: ("call",(0,1)),("callsetup",(0-3)),("battchg",(0-5))''\<close>
  "trim ''+CIND: 0,0,3'' = ''+CIND: 0,0,3''"
  by (simp_all add: trim_def isSpace_def)

text \<open>
  C7. A new connection that receives the indicator-definition line
  \<^verbatim>\<open>+CIND: ("call",(0,1)),("callsetup",(0-3)),("battchg",(0-5))\<close> and then the
  indicator-value line \<^verbatim>\<open>+CIND: 0,0,3\<close>, each ended by carriage return and line feed, has
  the indicator-name table call, callsetup, battchg and the indicator values call 0,
  callsetup 0, battchg 3, and exactly one battery-level event was emitted, with the
  value 3.
\<close>

theorem indicator_definition_then_values:
  \<open>(let (c, evs) =
          receive m
            (''+CIND: ("call",(0,1)),("callsetup",(0-3)),("battchg",(0-5))'' @
               [CHR 0x0D, CHR 0x0A] @ ''+CIND: 0,0,3'' @ [CHR 0x0D, CHR 0x0A])
            (newConn m)
    in indicatorMap c = [''call'', ''callsetup'', ''battchg''] \<and>
       indicators c = [(''call'', Num 0), (''callsetup'', Num 0), (''battchg'', Num 3)] \<and>
       map (getProp (indicators c)) [''call'', ''callsetup'', ''battchg''] =
         [Some (Num 0), Some (Num 0), Some (Num 3)] \<and>
       filter isBatteryLevel evs = [BatteryLevel m (Num 3)])\<close>
proof -
  have b: "buffer (newConn m) = []" by (simp add: newConn_def)
  show ?thesis
    unfolding receive_def b two_lines_split
    by (simp add: two_lines_trim definition_line_example value_line_example
        isBatteryLevel_def getProp_def)
qed

subsection \<open>Indicator events without a name\<close>

text \<open>The index a \<^verbatim>\<open>+CIEV\<close> line carries, as \<^verbatim>\<open>_processLine\<close> reads it.\<close>

definition cievIndex :: "string \<Rightarrow> jsnum" where
  "cievIndex line =
     (case splitOn (CHR '','') (trim (afterColon line)) of [] \<Rightarrow> NaN | p # _ \<Rightarrow> parseInt p)"

lemma ciev_branch:
  assumes "startsWith line ''+CIEV:''"
  shows "processLine m line c =
     processIndicatorEvent m (cievIndex line)
       (case splitOn (CHR '','') (trim (afterColon line)) of _ # p # _ \<Rightarrow> parseInt p | _ \<Rightarrow> NaN) c"
proof -
  from assms obtain r where l: "line = ''+CIEV:'' @ r"
    by (metis append_take_drop_id startsWith_def)
  have "classify (''+CIEV:'' @ r) = Ciev"
    by (simp add: classify_def startsWith_def)
  then show ?thesis unfolding l
    by (simp add: processLine_def cievIndex_def Let_def)
qed

lemma empty_table_no_name: "indicatorMap c = [] \<Longrightarrow> indicatorNameOf c idx = None"
  by (cases idx) (simp_all add: indicatorNameOf_def)

text \<open>
  C8. A \<^verbatim>\<open>+CIEV\<close> line whose index, counted from 1, has no name in the indicator-name
  table of the connection (as every index has while the table is still empty) changes
  nothing: the connection object, with its indicator values, is the same, no event is
  emitted, and the loop over the received lines goes on with the lines that follow as if
  the line had not been there.
\<close>

theorem unmapped_indicator_event_ignored:
  assumes "startsWith (trim l) ''+CIEV:''"
    and "indicatorMap c = [] \<or> indicatorNameOf c (cievIndex (trim l)) = None"
  shows "processLine m (trim l) c = (c, []) \<and>
         processLines m (l # rest) c = processLines m rest c"
proof -
  from assms(2) have n: "indicatorNameOf c (cievIndex (trim l)) = None"
    using empty_table_no_name by blast
  have p: "processLine m (trim l) c = (c, [])"
    using assms(1) n by (simp add: ciev_branch processIndicatorEvent_def)
  then show ?thesis by (simp add: Let_def)
qed

lemma ciev_example:
  "trim ''+CIEV: 2,1'' = ''+CIEV: 2,1''" "startsWith ''+CIEV: 2,1'' ''+CIEV:''"
  by (simp_all add: trim_def isSpace_def startsWith_def)

theorem unmapped_indicator_event_ignored_witness:
  "startsWith (trim ''+CIEV: 2,1'') ''+CIEV:'' \<and> indicatorMap (newConn ''AA:BB:CC:DD:EE:FF'') = [] \<and>
   processLine ''AA:BB:CC:DD:EE:FF'' (trim ''+CIEV: 2,1'') (newConn ''AA:BB:CC:DD:EE:FF'') =
     (newConn ''AA:BB:CC:DD:EE:FF'', []) \<and>
   processLines ''AA:BB:CC:DD:EE:FF'' [''+CIEV: 2,1'', ''RING''] (newConn ''AA:BB:CC:DD:EE:FF'') =
     processLines ''AA:BB:CC:DD:EE:FF'' [''RING''] (newConn ''AA:BB:CC:DD:EE:FF'')"
proof -
  have h1: "startsWith (trim ''+CIEV: 2,1'') ''+CIEV:''" by (simp add: ciev_example)
  have h2: "indicatorMap (newConn ''AA:BB:CC:DD:EE:FF'') = []" by (simp add: newConn_def)
  from h2 have h3: "indicatorMap (newConn ''AA:BB:CC:DD:EE:FF'') = [] \<or>
      indicatorNameOf (newConn ''AA:BB:CC:DD:EE:FF'') (cievIndex (trim ''+CIEV: 2,1'')) = None"
    by simp
  show ?thesis
    using h1 h2 unmapped_indicator_event_ignored[OF h1 h3, of "''AA:BB:CC:DD:EE:FF''" "[''RING'']"]
    by simp
qed

subsection \<open>Call control without a connection\<close>

text \<open>
  C10. Every call-control operation (answer, hang up, reject, dial, redial, raw command,
  DTMF tone, list of current calls, volume) for a MAC that has no connection record is
  rejected with the error \<^verbatim>\<open>No HFP connection for\<close> the MAC and leaves the whole state as
  it was: nothing is written to a channel, no queue changes, no record is made.
\<close>

theorem call_control_without_connection:
  assumes "connections w (normalise m) = None"
  shows "answer m w = (Inl (''No HFP connection for '' @ m), w) \<and>
    hangup m w = (Inl (''No HFP connection for '' @ m), w) \<and>
    reject m w = (Inl (''No HFP connection for '' @ m), w) \<and>
    dial m number w = (Inl (''No HFP connection for '' @ m), w) \<and>
    redial m w = (Inl (''No HFP connection for '' @ m), w) \<and>
    sendRawAT m command w = (Inl (''No HFP connection for '' @ m), w) \<and>
    sendDTMF m tone w = (Inl (''No HFP connection for '' @ m), w) \<and>
    queryCurrentCalls m w = (Inl (''No HFP connection for '' @ m), w) \<and>
    setVolume m vol w = (Inl (''No HFP connection for '' @ m), w)"
  using assms
  by (simp add: answer_def hangup_def reject_def dial_def redial_def sendRawAT_def
      sendDTMF_def queryCurrentCalls_def setVolume_def sendCommand_def Let_def)

theorem call_control_without_connection_witness:
  "connections \<lparr>connections = Map.empty, emitted = [], closed = [], replaced = []\<rparr> (normalise ''aa-bb-cc-dd-ee-ff'') = None \<and>
   dial ''aa-bb-cc-dd-ee-ff'' ''+49 123'' \<lparr>connections = Map.empty, emitted = [], closed = [], replaced = []\<rparr> =
     (Inl ''No HFP connection for aa-bb-cc-dd-ee-ff'', \<lparr>connections = Map.empty, emitted = [], closed = [], replaced = []\<rparr>) \<and>
   setVolume ''aa-bb-cc-dd-ee-ff'' (Num 20) \<lparr>connections = Map.empty, emitted = [], closed = [], replaced = []\<rparr> =
     (Inl ''No HFP connection for aa-bb-cc-dd-ee-ff'', \<lparr>connections = Map.empty, emitted = [], closed = [], replaced = []\<rparr>)"
proof -
  have h: "connections \<lparr>connections = Map.empty, emitted = [], closed = [], replaced = []\<rparr>
      (normalise ''aa-bb-cc-dd-ee-ff'') = None" by simp
  show ?thesis
    using h call_control_without_connection[OF h, of "''+49 123''" "''''" "''''" "Num 20"]
    by simp
qed

subsection \<open>Teardown\<close>

text \<open>The queue of a connection, empty while it was never created.\<close>

definition queueOf :: "conn \<Rightarrow> entry list" where
  "queueOf c = (case cmdQueue c of None \<Rightarrow> [] | Some q \<Rightarrow> q)"

lemma settle_keepalive:
  "settle p out (c\<lparr>keepaliveTimer := b\<rparr>) = (settle p out c)\<lparr>keepaliveTimer := b\<rparr>"
  by (simp add: settle_def)

lemma rejectAll_keepalive:
  "rejectAll q (c\<lparr>keepaliveTimer := b\<rparr>) = (rejectAll q c)\<lparr>keepaliveTimer := b\<rparr>"
  by (induction q arbitrary: c) (simp_all add: settle_keepalive)

lemma settle_other_fields:
  "keepaliveTimer (settle p out c) = keepaliveTimer c"
  "destroyed (settle p out c) = destroyed c"
  "cmdQueue (settle p out c) = cmdQueue c"
  by (simp_all add: settle_def)

lemma rejectAll_other_fields:
  "keepaliveTimer (rejectAll q c) = keepaliveTimer c"
  "destroyed (rejectAll q c) = destroyed c"
  "cmdQueue (rejectAll q c) = cmdQueue c"
  by (induction q arbitrary: c) (simp_all add: settle_other_fields)

lemma settle_mono: "set (settled c) \<subseteq> set (settled (settle p out c))"
  by (auto simp: settle_def)

lemma rejectAll_mono: "set (settled c) \<subseteq> set (settled (rejectAll q c))"
proof (induction q arbitrary: c)
  case Nil
  then show ?case by simp
next
  case (Cons e q)
  have "set (settled c) \<subseteq> set (settled (settle (promise e) (Rejected ''HFP connection closed'') c))"
    by (rule settle_mono)
  also have "\<dots> \<subseteq> set (settled (rejectAll q (settle (promise e) (Rejected ''HFP connection closed'') c)))"
    by (rule Cons.IH)
  finally show ?case by simp
qed

lemma rejectAll_rejects:
  "e \<in> set q \<Longrightarrow> promise e \<notin> fst ` set (settled c) \<Longrightarrow>
   (promise e, Rejected ''HFP connection closed'') \<in> set (settled (rejectAll q c))"
proof (induction q arbitrary: c)
  case Nil
  then show ?case by simp
next
  case (Cons e0 q)
  let ?c1 = "settle (promise e0) (Rejected ''HFP connection closed'') c"
  show ?case
  proof (cases "promise e = promise e0")
    case True
    with Cons.prems have "(promise e, Rejected ''HFP connection closed'') \<in> set (settled ?c1)"
      by (simp add: settle_def)
    then show ?thesis using rejectAll_mono[of ?c1 q] by auto
  next
    case False
    with Cons.prems have "e \<in> set q" by auto
    moreover from False Cons.prems have "promise e \<notin> fst ` set (settled ?c1)"
      by (auto simp: settle_def)
    ultimately show ?thesis using Cons.IH[of ?c1] by simp
  qed
qed

lemma rejectAll_only_rejects:
  "\<exists>new. settled (rejectAll q c) = settled c @ new \<and>
         list_all (\<lambda>x. snd x = Rejected ''HFP connection closed'') new"
proof (induction q arbitrary: c)
  case Nil
  then show ?case by simp
next
  case (Cons e q)
  let ?c1 = "settle (promise e) (Rejected ''HFP connection closed'') c"
  obtain n1 where n1: "settled ?c1 = settled c @ n1"
    "list_all (\<lambda>x. snd x = Rejected ''HFP connection closed'') n1"
    by (cases "promise e \<in> fst ` set (settled c)") (auto simp: settle_def)
  from Cons.IH[of ?c1] obtain n2 where n2: "settled (rejectAll q ?c1) = settled ?c1 @ n2"
    "list_all (\<lambda>x. snd x = Rejected ''HFP connection closed'') n2"
    by blast
  have "settled (rejectAll (e # q) c) = settled c @ (n1 @ n2)"
    using n1 n2 by simp
  moreover have "list_all (\<lambda>x. snd x = Rejected ''HFP connection closed'') (n1 @ n2)"
    using n1(2) n2(2) by simp
  ultimately show ?case by blast
qed

lemma closeConn_fields:
  "\<not> keepaliveTimer (closeConn c)" "destroyed (closeConn c)" "queueOf (closeConn c) = []"
  by (simp_all add: closeConn_def queueOf_def Let_def rejectAll_keepalive rejectAll_other_fields
      split: option.splits)

lemma closeConn_settled: "settled (closeConn c) = settled (rejectAll (queueOf c) c)"
  by (simp add: closeConn_def queueOf_def Let_def rejectAll_keepalive split: option.splits)

lemma teardown_is_cleanup: "teardown path t w = cleanup (hfpDevicePathToMac path) w"
  by (cases t) (simp_all add: onSocketError_def onSocketClose_def onRequestDisconnection_def)

lemma teardown_without_record:
  "connections w (normalise (hfpDevicePathToMac path)) = None \<Longrightarrow>
   foldl (\<lambda>w t. teardown path t w) w ts = w"
  by (induction ts) (simp_all add: teardown_is_cleanup cleanup_def)

text \<open>
  C3, amended. For a connection that has the record of its MAC, made for a device path,
  any non-empty sequence of teardown triggers (channel error, channel close, disconnect
  request, in any combination and order) removes the record, leaves the other records
  alone, and emits \<^verbatim>\<open>disconnected\<close> exactly once; the connection object is left with its
  keepalive timer cleared, its channel destroyed, its queue empty, and every command
  that was queued and not yet settled rejected with the error \<^verbatim>\<open>HFP connection closed\<close>,
  no earlier outcome being touched. A further trigger after the record is removed
  changes nothing.
\<close>

theorem teardown_exactly_once:
  assumes "connections w (normalise (hfpDevicePathToMac path)) = Some c" and "ts \<noteq> []"
  shows "(let m = hfpDevicePathToMac path;
              w' = foldl (\<lambda>w t. teardown path t w) w ts
          in connections w' = (connections w)(normalise m := None) \<and>
             emitted w' = emitted w @ [Disconnected m] \<and>
             closed w' = closed w @ [closeConn c] \<and>
             teardown path t w' = w') \<and>
         \<not> keepaliveTimer (closeConn c) \<and> destroyed (closeConn c) \<and>
         queueOf (closeConn c) = [] \<and>
         (\<forall>e \<in> set (queueOf c). promise e \<notin> fst ` set (settled c) \<longrightarrow>
            (promise e, Rejected ''HFP connection closed'') \<in> set (settled (closeConn c))) \<and>
         (\<exists>new. settled (closeConn c) = settled c @ new \<and>
            list_all (\<lambda>x. snd x = Rejected ''HFP connection closed'') new)"
proof -
  let ?m = "hfpDevicePathToMac path"
  let ?w1 = "cleanup ?m w"
  from assms(2) obtain t0 ts' where ts: "ts = t0 # ts'" by (cases ts) auto
  have w1: "?w1 = w\<lparr> connections := (connections w)(normalise ?m := None),
                closed := closed w @ [closeConn c],
                emitted := emitted w @ [Disconnected ?m] \<rparr>"
    using assms(1) by (simp add: cleanup_def)
  have gone: "connections ?w1 (normalise ?m) = None" by (simp add: w1)
  have all: "foldl (\<lambda>w t. teardown path t w) w ts = ?w1"
    unfolding ts using teardown_without_record[OF gone] by (simp add: teardown_is_cleanup)
  have again: "teardown path t ?w1 = ?w1"
    using gone by (simp add: teardown_is_cleanup cleanup_def)
  have first: "let m = hfpDevicePathToMac path;
              w' = foldl (\<lambda>w t. teardown path t w) w ts
          in connections w' = (connections w)(normalise m := None) \<and>
             emitted w' = emitted w @ [Disconnected m] \<and>
             closed w' = closed w @ [closeConn c] \<and>
             teardown path t w' = w'"
    unfolding Let_def all using again by (simp add: w1)
  have rej: "\<forall>e \<in> set (queueOf c). promise e \<notin> fst ` set (settled c) \<longrightarrow>
            (promise e, Rejected ''HFP connection closed'') \<in> set (settled (closeConn c))"
    using rejectAll_rejects by (simp add: closeConn_settled)
  have only: "\<exists>new. settled (closeConn c) = settled c @ new \<and>
            list_all (\<lambda>x. snd x = Rejected ''HFP connection closed'') new"
    using rejectAll_only_rejects by (simp add: closeConn_settled)
  show ?thesis using first rej only closeConn_fields by blast
qed

lemma example_path_mac:
  "hfpDevicePathToMac ''/org/bluez/hci0/dev_AA_BB_CC_DD_EE_FF'' = ''AA:BB:CC:DD:EE:FF''"
  by (simp add: hfpDevicePathToMac_def hfpDevAt_def startsWith_def isHexDigit_def
      toUpperCase_def replaceChars_def upperChar_def)

lemma example_mac_normalised: "normalise ''AA:BB:CC:DD:EE:FF'' = ''AA:BB:CC:DD:EE:FF''"
  by (simp add: normalise_def toUpperCase_def replaceChars_def upperChar_def)

text \<open>A profile with one connection, made for a device path, whose first command is in
  flight and which has a second command queued.\<close>

definition exampleProfile :: hfp where
  "exampleProfile =
     snd (answer ''AA:BB:CC:DD:EE:FF''
       (onNewConnection ''/org/bluez/hci0/dev_AA_BB_CC_DD_EE_FF''
          \<lparr>connections = Map.empty, emitted = [], closed = [], replaced = []\<rparr>))"

definition exampleConn :: conn where
  "exampleConn =
     pushCommand ''AA:BB:CC:DD:EE:FF'' ''ATA''
       (pushCommand ''AA:BB:CC:DD:EE:FF'' ''AT+BRSF=183'' (newConn ''AA:BB:CC:DD:EE:FF''))"

lemma exampleProfile_eq:
  "exampleProfile =
     \<lparr>connections = [''AA:BB:CC:DD:EE:FF'' \<mapsto> exampleConn],
      emitted = [PreConnect ''AA:BB:CC:DD:EE:FF''], closed = [], replaced = []\<rparr>"
  by (simp add: exampleProfile_def exampleConn_def onNewConnection_def answer_def sendCommand_def
      example_path_mac example_mac_normalised Let_def)

lemma exampleConn_queue:
  "queueOf exampleConn =
     [\<lparr>cmd = ''AT+BRSF=183'', promise = 0\<rparr>, \<lparr>cmd = ''ATA'', promise = 1\<rparr>]"
  "settled exampleConn = []"
  by (simp_all add: exampleConn_def pushCommand_def sendNextCommand_def newConn_def queueOf_def
      Let_def)

theorem teardown_exactly_once_witness:
  "connections exampleProfile (normalise (hfpDevicePathToMac ''/org/bluez/hci0/dev_AA_BB_CC_DD_EE_FF'')) =
     Some exampleConn \<and>
   [ChannelError, ChannelClose, DisconnectRequest] \<noteq> [] \<and>
   emitted (foldl (\<lambda>w t. teardown ''/org/bluez/hci0/dev_AA_BB_CC_DD_EE_FF'' t w) exampleProfile
      [ChannelError, ChannelClose, DisconnectRequest]) =
     [PreConnect ''AA:BB:CC:DD:EE:FF'', Disconnected ''AA:BB:CC:DD:EE:FF''] \<and>
   (0, Rejected ''HFP connection closed'') \<in> set (settled (closeConn exampleConn)) \<and>
   (1, Rejected ''HFP connection closed'') \<in> set (settled (closeConn exampleConn))"
proof -
  have h1: "connections exampleProfile
      (normalise (hfpDevicePathToMac ''/org/bluez/hci0/dev_AA_BB_CC_DD_EE_FF'')) = Some exampleConn"
    by (simp add: exampleProfile_eq example_path_mac example_mac_normalised)
  have h2: "[ChannelError, ChannelClose, DisconnectRequest] \<noteq> []" by simp
  have e: "emitted exampleProfile = [PreConnect ''AA:BB:CC:DD:EE:FF'']"
    by (simp add: exampleProfile_eq)
  show ?thesis
    using h1 teardown_exactly_once[OF h1 h2, of ChannelClose]
    by (simp add: Let_def example_path_mac e exampleConn_queue)
qed

text \<open>
  A second \<^verbatim>\<open>NewConnection\<close> of the same device while the first connection still has its
  record. The connection it makes has only the first command of \<^verbatim>\<open>_initSLC\<close> queued; the
  record of the first connection is overwritten.
\<close>

definition secondConn :: conn where
  "secondConn = pushCommand ''AA:BB:CC:DD:EE:FF'' ''AT+BRSF=183'' (newConn ''AA:BB:CC:DD:EE:FF'')"

lemma second_connection:
  "onNewConnection ''/org/bluez/hci0/dev_AA_BB_CC_DD_EE_FF'' exampleProfile =
     \<lparr>connections = [''AA:BB:CC:DD:EE:FF'' \<mapsto> secondConn],
      emitted = [PreConnect ''AA:BB:CC:DD:EE:FF'', PreConnect ''AA:BB:CC:DD:EE:FF''],
      closed = [], replaced = [exampleConn]\<rparr>"
  by (simp add: exampleProfile_eq secondConn_def onNewConnection_def sendCommand_def
      example_path_mac example_mac_normalised Let_def)

lemma second_connection_torn_down:
  "foldl (\<lambda>w t. teardown ''/org/bluez/hci0/dev_AA_BB_CC_DD_EE_FF'' t w)
      (onNewConnection ''/org/bluez/hci0/dev_AA_BB_CC_DD_EE_FF'' exampleProfile)
      [ChannelError, ChannelClose, DisconnectRequest] =
     \<lparr>connections = Map.empty,
      emitted = [PreConnect ''AA:BB:CC:DD:EE:FF'', PreConnect ''AA:BB:CC:DD:EE:FF'',
                 Disconnected ''AA:BB:CC:DD:EE:FF''],
      closed = [closeConn secondConn], replaced = [exampleConn]\<rparr>"
  unfolding second_connection
  by (simp add: teardown_is_cleanup cleanup_def example_path_mac example_mac_normalised Let_def)

lemma rejectAll_promises: "promises (rejectAll q c) = promises c"
  by (induction q arbitrary: c) (simp_all add: settle_def)

lemma closeConn_promises: "promises (closeConn c) = promises c"
  by (simp add: closeConn_def Let_def rejectAll_promises split: option.splits)

lemma exampleConn_open:
  "\<not> destroyed exampleConn" "cmdInFlight exampleConn" "length (atTimers exampleConn) = 1"
  by (simp_all add: exampleConn_def pushCommand_def sendNextCommand_def newConn_def Let_def)

text \<open>
  C3 as stated, for every connection, fails. The first connection of a device has two
  commands queued when a second connection of the same device replaces its record.
  Then the channel of the first connection reports an error and its close, and the
  disconnect request for the device arrives. The teardown they trigger finds the record
  of the second connection: that one is closed, and the one \<^verbatim>\<open>disconnected\<close> event is
  emitted, for two connections made. The first connection is never torn down: its
  channel is not destroyed by teardown, its two commands stay queued and unsettled, and
  none is rejected with \<^verbatim>\<open>HFP connection closed\<close>.
\<close>

theorem teardown_misses_replaced_connection:
  "emitted (foldl (\<lambda>w t. teardown ''/org/bluez/hci0/dev_AA_BB_CC_DD_EE_FF'' t w)
      (onNewConnection ''/org/bluez/hci0/dev_AA_BB_CC_DD_EE_FF'' exampleProfile)
      [ChannelError, ChannelClose, DisconnectRequest]) =
     [PreConnect ''AA:BB:CC:DD:EE:FF'', PreConnect ''AA:BB:CC:DD:EE:FF'',
      Disconnected ''AA:BB:CC:DD:EE:FF''] \<and>
   closed (foldl (\<lambda>w t. teardown ''/org/bluez/hci0/dev_AA_BB_CC_DD_EE_FF'' t w)
      (onNewConnection ''/org/bluez/hci0/dev_AA_BB_CC_DD_EE_FF'' exampleProfile)
      [ChannelError, ChannelClose, DisconnectRequest]) = [closeConn secondConn] \<and>
   replaced (foldl (\<lambda>w t. teardown ''/org/bluez/hci0/dev_AA_BB_CC_DD_EE_FF'' t w)
      (onNewConnection ''/org/bluez/hci0/dev_AA_BB_CC_DD_EE_FF'' exampleProfile)
      [ChannelError, ChannelClose, DisconnectRequest]) = [exampleConn] \<and>
   closeConn exampleConn \<notin> set (closed (foldl (\<lambda>w t. teardown ''/org/bluez/hci0/dev_AA_BB_CC_DD_EE_FF'' t w)
      (onNewConnection ''/org/bluez/hci0/dev_AA_BB_CC_DD_EE_FF'' exampleProfile)
      [ChannelError, ChannelClose, DisconnectRequest])) \<and>
   \<not> destroyed exampleConn \<and>
   queueOf exampleConn =
     [\<lparr>cmd = ''AT+BRSF=183'', promise = 0\<rparr>, \<lparr>cmd = ''ATA'', promise = 1\<rparr>] \<and>
   settled exampleConn = []"
proof -
  have "promises exampleConn = 2" "promises secondConn = 1"
    by (simp_all add: exampleConn_def secondConn_def pushCommand_def sendNextCommand_def
        newConn_def Let_def)
  then have "promises (closeConn exampleConn) \<noteq> promises (closeConn secondConn)"
    by (simp add: closeConn_promises)
  then have ne: "closeConn exampleConn \<noteq> closeConn secondConn" by auto
  show ?thesis
    unfolding second_connection_torn_down
    using ne by (simp add: exampleConn_queue exampleConn_open)
qed

subsection \<open>The command queue under every interleaving\<close>

























































section \<open>The device manager (bluezManager.js)\<close>

subsection \<open>Discovery control\<close>

text \<open>The calls \<^verbatim>\<open>startDiscovery\<close> makes, kept in the order made: the three adapter
  methods and the pause after a successful stop.\<close>

datatype adapter_call = StopDiscovery | Delay nat | SetDiscoveryFilter string | StartDiscovery

text \<open>The reply of the control bus to a method call: success, or an error with its
  message when it has one.\<close>

datatype reply = Success | Failure "string option"

record replies =
  stopReply :: reply
  filterReply :: reply
  startReply :: reply

record discovery =
  mgrDestroyed :: bool
  discovering :: bool
  adapterCalls :: "adapter_call list"

text \<open>The test of the catch clause around the start call: the error has a message that
  includes \<^verbatim>\<open>InProgress\<close> or \<^verbatim>\<open>already in progress\<close>.\<close>

definition inProgressError :: "string option \<Rightarrow> bool" where
  "inProgressError msg =
     (case msg of
        None \<Rightarrow> False
      | Some t \<Rightarrow> t \<noteq> [] \<and> (includesStr t ''InProgress'' \<or> includesStr t ''already in progress''))"

text \<open>\<^verbatim>\<open>startDiscovery\<close>, with the replies the adapter gives to its calls. The result is
  \<open>Inr ()\<close> when it returns and \<open>Inl\<close> the message of the error it throws.\<close>

definition startDiscovery ::
  "string \<Rightarrow> replies \<Rightarrow> discovery \<Rightarrow> (string option + unit) \<times> discovery" where
  "startDiscovery transport r d =
     (if mgrDestroyed d then (Inr (), d)
      else if discovering d then (Inr (), d)
      else
        (let d1 = d\<lparr>adapterCalls := adapterCalls d @ [StopDiscovery]\<rparr>;
             d2 = (case stopReply r of
                     Success \<Rightarrow> d1\<lparr>adapterCalls := adapterCalls d1 @ [Delay 300]\<rparr>
                   | Failure _ \<Rightarrow> d1);
             d3 = d2\<lparr>adapterCalls := adapterCalls d2 @ [SetDiscoveryFilter transport]\<rparr>;
             d4 = d3\<lparr>adapterCalls := adapterCalls d3 @ [StartDiscovery]\<rparr>
         in case startReply r of
              Success \<Rightarrow> (Inr (), d4\<lparr>discovering := True\<rparr>)
            | Failure msg \<Rightarrow>
                if inProgressError msg then (Inr (), d4\<lparr>discovering := True\<rparr>)
                else (Inl msg, d4)))"

text \<open>How often the underlying start was called.\<close>

definition startCalls :: "discovery \<Rightarrow> nat" where
  "startCalls d = length (filter (\<lambda>x. x = StartDiscovery) (adapterCalls d))"

lemma startDiscovery_running:
  "discovering d \<Longrightarrow> startDiscovery transport r d = (Inr (), d)"
  by (simp add: startDiscovery_def)

lemma startDiscovery_first:
  assumes "\<not> mgrDestroyed d" and "\<not> discovering d"
    and "startReply r = Success \<or> (\<exists>msg. startReply r = Failure msg \<and> inProgressError msg)"
  shows "fst (startDiscovery transport r d) = Inr ()"
    and "discovering (snd (startDiscovery transport r d))"
    and "startCalls (snd (startDiscovery transport r d)) = Suc (startCalls d)"
  using assms
  by (auto simp: startDiscovery_def startCalls_def Let_def split: reply.splits)

text \<open>
  C5. \<^verbatim>\<open>startDiscovery\<close> called while discovery is flagged as running returns at once,
  without an error and without any call to the adapter. So of two consecutive calls, the
  first of which found discovery not running and got its start call through (it
  succeeded, or failed as already in progress), the second returns without an error and
  the underlying start was called exactly once. A start call that fails with an error
  whose message includes \<^verbatim>\<open>InProgress\<close> or \<^verbatim>\<open>already in progress\<close> counts as success:
  \<^verbatim>\<open>startDiscovery\<close> returns without an error and the flag is set.
\<close>

theorem startDiscovery_idempotent:
  "(discovering d \<longrightarrow> startDiscovery transport r d = (Inr (), d)) \<and>
   (\<not> mgrDestroyed d \<and> \<not> discovering d \<and>
    (startReply r = Success \<or> (\<exists>msg. startReply r = Failure msg \<and> inProgressError msg)) \<longrightarrow>
      (let (res1, d1) = startDiscovery transport r d;
           (res2, d2) = startDiscovery transport' r' d1
       in res1 = Inr () \<and> res2 = Inr () \<and> d2 = d1 \<and> startCalls d2 = Suc (startCalls d))) \<and>
   (\<not> mgrDestroyed d \<and> \<not> discovering d \<and> startReply r = Failure msg \<and> inProgressError msg \<longrightarrow>
      fst (startDiscovery transport r d) = Inr () \<and>
      discovering (snd (startDiscovery transport r d)))"
proof (intro conjI impI)
  assume "discovering d"
  then show "startDiscovery transport r d = (Inr (), d)" by (rule startDiscovery_running)
next
  assume a: "\<not> mgrDestroyed d \<and> \<not> discovering d \<and>
    (startReply r = Success \<or> (\<exists>msg. startReply r = Failure msg \<and> inProgressError msg))"
  obtain res1 d1 where s1: "startDiscovery transport r d = (res1, d1)" by (cases "startDiscovery transport r d")
  from a have f: "fst (startDiscovery transport r d) = Inr ()"
    "discovering (snd (startDiscovery transport r d))"
    "startCalls (snd (startDiscovery transport r d)) = Suc (startCalls d)"
    using startDiscovery_first[of d r transport] by blast+
  from f s1 have "res1 = Inr ()" "discovering d1" "startCalls d1 = Suc (startCalls d)" by simp_all
  moreover from \<open>discovering d1\<close> have "startDiscovery transport' r' d1 = (Inr (), d1)"
    by (rule startDiscovery_running)
  ultimately show "let (res1, d1) = startDiscovery transport r d;
           (res2, d2) = startDiscovery transport' r' d1
       in res1 = Inr () \<and> res2 = Inr () \<and> d2 = d1 \<and> startCalls d2 = Suc (startCalls d)"
    using s1 by simp
next
  assume a: "\<not> mgrDestroyed d \<and> \<not> discovering d \<and> startReply r = Failure msg \<and> inProgressError msg"
  then show "fst (startDiscovery transport r d) = Inr ()"
    using startDiscovery_first(1)[of d r transport] by blast
  from a show "discovering (snd (startDiscovery transport r d))"
    using startDiscovery_first(2)[of d r transport] by blast
qed

definition idleAdapter :: discovery where
  "idleAdapter = \<lparr>mgrDestroyed = False, discovering = False, adapterCalls = []\<rparr>"

definition busyReplies :: replies where
  "busyReplies = \<lparr>stopReply = Failure (Some ''org.bluez.Error.Failed: No discovery started''),
     filterReply = Success,
     startReply = Failure (Some ''org.bluez.Error.InProgress: Operation already in progress'')\<rparr>"

lemma busy_is_inProgress:
  "inProgressError (Some ''org.bluez.Error.InProgress: Operation already in progress'')"
  by (simp add: inProgressError_def startsWith_def)

theorem startDiscovery_idempotent_witness:
  "\<not> mgrDestroyed idleAdapter \<and> \<not> discovering idleAdapter \<and>
   startReply busyReplies = Failure (Some ''org.bluez.Error.InProgress: Operation already in progress'') \<and>
   inProgressError (Some ''org.bluez.Error.InProgress: Operation already in progress'') \<and>
   fst (startDiscovery ''le'' busyReplies idleAdapter) = Inr () \<and>
   discovering (snd (startDiscovery ''le'' busyReplies idleAdapter)) \<and>
   adapterCalls (snd (startDiscovery ''auto'' busyReplies (snd (startDiscovery ''le'' busyReplies idleAdapter)))) =
     [StopDiscovery, SetDiscoveryFilter ''le'', StartDiscovery]"
proof -
  have h: "\<not> mgrDestroyed idleAdapter \<and> \<not> discovering idleAdapter \<and>
      startReply busyReplies = Failure (Some ''org.bluez.Error.InProgress: Operation already in progress'') \<and>
      inProgressError (Some ''org.bluez.Error.InProgress: Operation already in progress'')"
    using busy_is_inProgress by (simp add: idleAdapter_def busyReplies_def)
  have c: "adapterCalls (snd (startDiscovery ''auto'' busyReplies (snd (startDiscovery ''le'' busyReplies idleAdapter)))) =
     [StopDiscovery, SetDiscoveryFilter ''le'', StartDiscovery]"
    using busy_is_inProgress
    by (simp add: startDiscovery_def idleAdapter_def busyReplies_def Let_def)
  show ?thesis
    using h c startDiscovery_idempotent[of idleAdapter "''le''" busyReplies "''auto''" busyReplies
        "Some ''org.bluez.Error.InProgress: Operation already in progress''"]
    by blast
qed

subsection \<open>Values on the control bus\<close>

text \<open>
  What a notification of the control bus can carry once unmarshalled: undefined, null,
  booleans, numbers, strings, arrays, dictionaries and byte buffers. A variant is a
  dictionary with the keys \<^verbatim>\<open>signature\<close> and \<^verbatim>\<open>value\<close>. The keys of a dictionary are
  distinct; a lookup takes the first.
\<close>

datatype jsval =
    Undefined
  | Null
  | Bool bool
  | Number jsnum
  | Str string
  | Arr "jsval list"
  | Obj "(string \<times> jsval) list"
  | Buf "nat list"

text \<open>Truthiness.\<close>

fun truthy :: "jsval \<Rightarrow> bool" where
  "truthy Undefined = False"
| "truthy Null = False"
| "truthy (Bool b) = b"
| "truthy (Number (Num i)) = (i \<noteq> 0)"
| "truthy (Number NaN) = False"
| "truthy (Str s) = (s \<noteq> [])"
| "truthy _ = True"

text \<open>Reading the property \<open>k\<close>, a name that no prototype defines, of a value that is
  neither undefined nor null: a dictionary gives what it holds, anything else
  undefined.\<close>

fun field :: "jsval \<Rightarrow> string \<Rightarrow> jsval" where
  "field (Obj kvs) k = (case map_of kvs k of None \<Rightarrow> Undefined | Some v \<Rightarrow> v)"
| "field _ k = Undefined"

subsection \<open>Interface names\<close>

definition DEVICE_IFACE :: string where "DEVICE_IFACE = ''org.bluez.Device1''"
definition BATTERY_IFACE :: string where "BATTERY_IFACE = ''org.bluez.Battery1''"
definition MEDIA_PLAYER_IFACE :: string where "MEDIA_PLAYER_IFACE = ''org.bluez.MediaPlayer1''"
definition GATT_CHAR_IFACE :: string where "GATT_CHAR_IFACE = ''org.bluez.GattCharacteristic1''"
definition OBJECT_MANAGER_IFACE :: string where
  "OBJECT_MANAGER_IFACE = ''org.freedesktop.DBus.ObjectManager''"
definition PROPERTIES_IFACE :: string where
  "PROPERTIES_IFACE = ''org.freedesktop.DBus.Properties''"
definition GATT_SERVICE_IFACE :: string where "GATT_SERVICE_IFACE = ''org.bluez.GattService1''"

subsection \<open>Operations on bus values that can throw\<close>

text \<open>What can be thrown while a notification is processed: a \<^verbatim>\<open>TypeError\<close> (a method or
  property of a value that does not have it, a value that cannot be iterated), a
  \<^verbatim>\<open>RangeError\<close> (a number that does not fit the buffer field), an \<^verbatim>\<open>Error\<close> object of a
  listener (\<open>ListenerError\<close>), the error of a failed call on the bus, or, since \<^verbatim>\<open>throw\<close>
  takes any value, a value a listener throws that is no \<^verbatim>\<open>Error\<close> object (\<open>Thrown\<close>).\<close>

datatype exn = TypeError | RangeError | ListenerError | BusError | Thrown jsval

text \<open>\<^verbatim>\<open>a || b\<close> and \<^verbatim>\<open>a ?? b\<close>.\<close>

definition orElse :: "jsval \<Rightarrow> jsval \<Rightarrow> jsval" where
  "orElse a b = (if truthy a then a else b)"

definition nullish :: "jsval \<Rightarrow> jsval \<Rightarrow> jsval" where
  "nullish a b = (if a = Undefined \<or> a = Null then b else a)"

text \<open>\<^verbatim>\<open>k in obj\<close> on a dictionary, and the assignment \<^verbatim>\<open>obj.k = v\<close>.\<close>

definition hasKey :: "jsval \<Rightarrow> string \<Rightarrow> bool" where
  "hasKey v k = (case v of Obj kvs \<Rightarrow> k \<in> fst ` set kvs | _ \<Rightarrow> False)"

fun assign :: "string \<Rightarrow> jsval \<Rightarrow> (string \<times> jsval) list \<Rightarrow> (string \<times> jsval) list" where
  "assign k v [] = [(k, v)]"
| "assign k v ((k', v') # r) = (if k = k' then (k, v) # r else (k', v') # assign k v r)"

definition setField :: "jsval \<Rightarrow> string \<Rightarrow> jsval \<Rightarrow> jsval" where
  "setField obj k v = (case obj of Obj kvs \<Rightarrow> Obj (assign k v kvs) | _ \<Rightarrow> obj)"

text \<open>Reading a property of a value that may be undefined or null: these two throw.\<close>

definition getMember :: "jsval \<Rightarrow> string \<Rightarrow> exn + jsval" where
  "getMember v k = (if v = Undefined \<or> v = Null then Inl TypeError else Inr (field v k))"

text \<open>The iteration behind an array destructuring: arrays, strings (character by
  character) and buffers (byte by byte) can be iterated, nothing else.\<close>

definition elements :: "jsval \<Rightarrow> exn + jsval list" where
  "elements v =
     (case v of
        Arr xs \<Rightarrow> Inr xs
      | Str s \<Rightarrow> Inr (map (\<lambda>c. Str [c]) s)
      | Buf bs \<Rightarrow> Inr (map (\<lambda>b. Number (Num (int b))) bs)
      | _ \<Rightarrow> Inl TypeError)"

definition nthOrUndefined :: "jsval list \<Rightarrow> nat \<Rightarrow> jsval" where
  "nthOrUndefined xs i = (if i < length xs then xs ! i else Undefined)"

text \<open>\<^verbatim>\<open>path.startsWith(prefix)\<close>: only a string has the method.\<close>

definition startsWithJs :: "jsval \<Rightarrow> string \<Rightarrow> exn + bool" where
  "startsWithJs v p = (case v of Str s \<Rightarrow> Inr (startsWith s p) | _ \<Rightarrow> Inl TypeError)"

fun bytesInclude :: "nat list \<Rightarrow> nat list \<Rightarrow> bool" where
  "bytesInclude [] p = (p = [])"
| "bytesInclude (b # bs) p = (take (length p) (b # bs) = p \<or> bytesInclude bs p)"

text \<open>\<^verbatim>\<open>interfaces.includes(name)\<close>: an array has the name as an element, a string as a
  part, a buffer as a run of bytes; other values have no such method.\<close>

definition includesJs :: "jsval \<Rightarrow> string \<Rightarrow> exn + bool" where
  "includesJs v k =
     (case v of
        Arr xs \<Rightarrow> Inr (Str k \<in> set xs)
      | Str s \<Rightarrow> Inr (includesStr s k)
      | Buf bs \<Rightarrow> Inr (bytesInclude bs (map of_char k))
      | _ \<Rightarrow> Inl TypeError)"

text \<open>The byte an array element becomes in \<^verbatim>\<open>Buffer.from\<close>: a number modulo 256, \<^verbatim>\<open>NaN\<close>
  as 0. Elements that are not numbers count as 0 here.\<close>

definition byteOf :: "jsval \<Rightarrow> nat" where
  "byteOf v = (case v of Number (Num i) \<Rightarrow> nat (i mod 256) | _ \<Rightarrow> 0)"

text \<open>\<^verbatim>\<open>Buffer.from(v)\<close> for the value of a characteristic: a buffer, an array or an
  ASCII string gives bytes; a number, a boolean or a dictionary throws.\<close>

definition bufferFrom :: "jsval \<Rightarrow> exn + nat list" where
  "bufferFrom v =
     (case v of
        Buf bs \<Rightarrow> Inr bs
      | Arr xs \<Rightarrow> Inr (map byteOf xs)
      | Str s \<Rightarrow> Inr (map of_char s)
      | _ \<Rightarrow> Inl TypeError)"

subsection \<open>Unwrapping variants\<close>

definition isVariant :: "(string \<times> jsval) list \<Rightarrow> bool" where
  "isVariant kvs = (''value'' \<in> fst ` set kvs \<and> ''signature'' \<in> fst ` set kvs)"

text \<open>\<^verbatim>\<open>_unwrapValue\<close>: a variant gives its unwrapped value, another dictionary is
  unwrapped entry by entry, anything else (arrays and buffers too) stays as it is.\<close>

primrec unwrapValue :: "jsval \<Rightarrow> jsval" where
  "unwrapValue Undefined = Undefined"
| "unwrapValue Null = Null"
| "unwrapValue (Bool b) = Bool b"
| "unwrapValue (Number n) = Number n"
| "unwrapValue (Str s) = Str s"
| "unwrapValue (Arr xs) = Arr xs"
| "unwrapValue (Obj kvs) =
     (let unwrapped = map (map_prod id unwrapValue) kvs
      in if isVariant kvs
         then (case map_of unwrapped ''value'' of None \<Rightarrow> Undefined | Some v \<Rightarrow> v)
         else Obj unwrapped)"
| "unwrapValue (Buf bs) = Buf bs"

text \<open>\<^verbatim>\<open>Object.entries\<close> of a dictionary, an array or a buffer.\<close>

definition entriesOf :: "jsval \<Rightarrow> (string \<times> jsval) list" where
  "entriesOf v =
     (case v of
        Obj kvs \<Rightarrow> kvs
      | Arr xs \<Rightarrow> zip (map decimalNat [0 ..< length xs]) xs
      | Buf bs \<Rightarrow> zip (map decimalNat [0 ..< length bs]) (map (\<lambda>b. Number (Num (int b))) bs)
      | _ \<Rightarrow> [])"

definition isObjectType :: "jsval \<Rightarrow> bool" where
  "isObjectType v = (case v of Obj _ \<Rightarrow> True | Arr _ \<Rightarrow> True | Buf _ \<Rightarrow> True | _ \<Rightarrow> False)"

text \<open>\<^verbatim>\<open>_unwrapVariants\<close>: always a dictionary; empty for what is no object.\<close>

definition unwrapVariants :: "jsval \<Rightarrow> jsval" where
  "unwrapVariants dict =
     (if \<not> truthy dict \<or> \<not> isObjectType dict then Obj []
      else Obj (map (map_prod id unwrapValue) (entriesOf dict)))"

subsection \<open>Device records\<close>

text \<open>\<^verbatim>\<open>_detectDeviceType\<close>.\<close>

definition detectDeviceType :: "jsval \<Rightarrow> jsval \<Rightarrow> string" where
  "detectDeviceType addressType btClass =
     (let hasBle = (addressType = Str ''public'' \<or> addressType = Str ''random'');
          hasClassic = (case btClass of Number (Num i) \<Rightarrow> 0 < i | _ \<Rightarrow> False)
      in if hasBle \<and> hasClassic then ''dual''
         else if hasClassic then ''classic''
         else ''le'')"

text \<open>\<^verbatim>\<open>_parseManufacturerData\<close>: the first entry gives the company number, written as
  two bytes, low byte first, before the payload. A company number beyond 16 bits makes
  the write throw.\<close>

definition parseManufacturerData :: "jsval \<Rightarrow> exn + jsval" where
  "parseManufacturerData mfData =
     (if \<not> truthy mfData \<or> \<not> isObjectType mfData then Inr Null
      else (case entriesOf mfData of
              [] \<Rightarrow> Inr Null
            | (companyIdStr, payload) # _ \<Rightarrow>
                (let companyId = numberOf companyIdStr;
                     payloadBuf = (case unwrapValue payload of
                                     Buf bs \<Rightarrow> bs
                                   | Arr xs \<Rightarrow> map byteOf xs
                                   | _ \<Rightarrow> [])
                 in case companyId of
                      NaN \<Rightarrow> Inr (Buf ([0, 0] @ payloadBuf))
                    | Num i \<Rightarrow>
                        if i < 0 \<or> 65535 < i then Inl RangeError
                        else Inr (Buf ([nat (i mod 256), nat (i div 256)] @ payloadBuf)))))"

text \<open>\<^verbatim>\<open>_parseServiceData\<close>: one record per entry, with the short form of a 128-bit
  UUID.\<close>

definition serviceEntry :: "string \<times> jsval \<Rightarrow> jsval" where
  "serviceEntry kv =
     (let data = (case unwrapValue (snd kv) of
                    Buf bs \<Rightarrow> bs
                  | Arr xs \<Rightarrow> map byteOf xs
                  | _ \<Rightarrow> []);
          normalizedUuid = filter (\<lambda>x. x \<noteq> CHR ''-'') (toLowerCase (fst kv));
          shortUuid = (if length normalizedUuid = 32 then take 4 (drop 4 normalizedUuid)
                       else normalizedUuid)
      in Obj [(''uuid'', Str shortUuid), (''data'', Buf data)])"

definition parseServiceData :: "jsval \<Rightarrow> jsval" where
  "parseServiceData svcData =
     (if \<not> truthy svcData \<or> \<not> isObjectType svcData then Arr []
      else Arr (map serviceEntry (entriesOf svcData)))"

text \<open>\<^verbatim>\<open>_buildDeviceInfo\<close>: the record of a device from its unwrapped properties. It
  throws when the manufacturer data does.\<close>

definition buildDeviceInfo :: "jsval \<Rightarrow> jsval \<Rightarrow> exn + jsval" where
  "buildDeviceInfo path props =
     (let addressType = orElse (field props ''AddressType'') (Str ''unknown'');
          btClass = nullish (field props ''Class'') Null
      in case parseManufacturerData (field props ''ManufacturerData'') of
           Inl e \<Rightarrow> Inl e
         | Inr manufacturerData \<Rightarrow>
             Inr (Obj
               [(''path'', path),
                (''address'', orElse (field props ''Address'') (Str [])),
                (''name'', orElse (field props ''Name'') (Str [])),
                (''alias'', orElse (field props ''Alias'') (Str [])),
                (''rssi'', nullish (field props ''RSSI'') Null),
                (''txPower'', nullish (field props ''TxPower'') Null),
                (''paired'', nullish (field props ''Paired'') (Bool False)),
                (''bonded'', nullish (field props ''Bonded'') (Bool False)),
                (''trusted'', nullish (field props ''Trusted'') (Bool False)),
                (''blocked'', nullish (field props ''Blocked'') (Bool False)),
                (''connected'', nullish (field props ''Connected'') (Bool False)),
                (''addressType'', addressType),
                (''class'', btClass),
                (''icon'', orElse (field props ''Icon'') (Str [])),
                (''battery'', Null),
                (''servicesResolved'', nullish (field props ''ServicesResolved'') (Bool False)),
                (''type'', Str (detectDeviceType addressType btClass)),
                (''manufacturerData'', manufacturerData),
                (''serviceData'', parseServiceData (field props ''ServiceData'')),
                (''uuids'', (case field props ''UUIDs'' of Arr xs \<Rightarrow> Arr xs | _ \<Rightarrow> Arr []))]))"

subsection \<open>Waiting for the services of a device\<close>

text \<open>The events a wait can see after its direct read: a \<^verbatim>\<open>deviceChanged\<close> event with
  the MAC and the changed fields, or the expiry of its timer.\<close>

datatype wait_event = DeviceChanged string jsval | TimerExpires

datatype wait_state = Waiting | Resolved_wait | Rejected_wait string

text \<open>The wait of \<^verbatim>\<open>_waitForServicesResolved\<close>: the MAC it filters by, whether its
  listener is subscribed to \<^verbatim>\<open>deviceChanged\<close>, the delay of its timer while armed, and
  how its promise stands.\<close>

record wait =
  waitMac :: string
  waitPath :: string
  subscribed :: bool
  waitTimer :: "nat option"
  waitState :: wait_state

text \<open>The start of \<^verbatim>\<open>_waitForServicesResolved\<close>, with the outcome of the direct read of
  the property: \<open>Inr\<close> the value of the variant read, \<open>Inl\<close> when the read throws. Only
  the value \<^verbatim>\<open>true\<close> returns at once; otherwise the timer is armed and the listener
  subscribed.\<close>

definition waitForServicesResolved :: "string \<Rightarrow> nat \<Rightarrow> string + jsval \<Rightarrow> wait" where
  "waitForServicesResolved devicePath timeoutMs readResult =
     (if readResult = Inr (Bool True)
      then \<lparr>waitMac = [], waitPath = devicePath, subscribed = False, waitTimer = None,
            waitState = Resolved_wait\<rparr>
      else \<lparr>waitMac = devicePathToMac devicePath, waitPath = devicePath, subscribed = True,
            waitTimer = Some timeoutMs, waitState = Waiting\<rparr>)"

text \<open>The listener \<^verbatim>\<open>onChange\<close> and the callback of the timer. A listener that was
  removed is not called, a timer that was cleared does not fire.\<close>

definition onChange :: "string \<Rightarrow> jsval \<Rightarrow> wait \<Rightarrow> wait" where
  "onChange changedMac updates w =
     (if \<not> subscribed w then w
      else if changedMac = waitMac w \<and> field updates ''servicesResolved'' = Bool True
      then w\<lparr>waitTimer := None, subscribed := False,
             waitState := (if waitState w = Waiting then Resolved_wait else waitState w)\<rparr>
      else w)"

definition onTimeout :: "wait \<Rightarrow> wait" where
  "onTimeout w =
     (case waitTimer w of
        None \<Rightarrow> w
      | Some _ \<Rightarrow>
          w\<lparr>waitTimer := None, subscribed := False,
            waitState := (if waitState w = Waiting
                          then Rejected_wait (''ServicesResolved timeout for '' @ waitPath w)
                          else waitState w)\<rparr>)"

fun waitStep :: "wait \<Rightarrow> wait_event \<Rightarrow> wait" where
  "waitStep w (DeviceChanged changedMac updates) = onChange changedMac updates w"
| "waitStep w TimerExpires = onTimeout w"

text \<open>The inner loop of \<^verbatim>\<open>discoverServices\<close>: the characteristics below the path of a
  service, among all managed objects.\<close>

fun characteristicsLoop :: "string \<Rightarrow> (string \<times> jsval) list \<Rightarrow> exn + jsval list" where
  "characteristicsLoop objPath [] = Inr []"
| "characteristicsLoop objPath (entry # rest) =
     (if \<not> startsWith (fst entry) (objPath @ ''/'') then characteristicsLoop objPath rest
      else (case getMember (snd entry) GATT_CHAR_IFACE of
              Inl e \<Rightarrow> Inl e
            | Inr c \<Rightarrow>
                if \<not> truthy c then characteristicsLoop objPath rest
                else (let charProps = unwrapVariants c;
                          characteristic =
                            Obj [(''uuid'', orElse (field charProps ''UUID'') (Str [])),
                                 (''path'', Str (fst entry)),
                                 (''flags'', orElse (field charProps ''Flags'') (Arr []))]
                      in case characteristicsLoop objPath rest of
                           Inl e \<Rightarrow> Inl e
                         | Inr characteristics \<Rightarrow> Inr (characteristic # characteristics))))"

text \<open>The outer loop: the services below the device path, each with its
  characteristics. \<open>objects\<close> are all managed objects, the third argument those still to
  visit.\<close>

fun servicesLoop ::
  "string \<Rightarrow> (string \<times> jsval) list \<Rightarrow> (string \<times> jsval) list \<Rightarrow> exn + jsval list" where
  "servicesLoop devicePath objects [] = Inr []"
| "servicesLoop devicePath objects (entry # rest) =
     (if \<not> startsWith (fst entry) (devicePath @ ''/'') then servicesLoop devicePath objects rest
      else (case getMember (snd entry) GATT_SERVICE_IFACE of
              Inl e \<Rightarrow> Inl e
            | Inr s \<Rightarrow>
                if \<not> truthy s then servicesLoop devicePath objects rest
                else (let svcProps = unwrapVariants s
                      in case characteristicsLoop (fst entry) objects of
                           Inl e \<Rightarrow> Inl e
                         | Inr characteristics \<Rightarrow>
                             (case servicesLoop devicePath objects rest of
                                Inl e \<Rightarrow> Inl e
                              | Inr services \<Rightarrow>
                                  Inr (Obj [(''uuid'', orElse (field svcProps ''UUID'') (Str [])),
                                            (''path'', Str (fst entry)),
                                            (''primary'', nullish (field svcProps ''Primary'') (Bool True)),
                                            (''characteristics'', Arr characteristics)]
                                       # services)))))"

text \<open>The second half of \<^verbatim>\<open>discoverServices\<close>, with the reply to the call for the managed
  objects: their entries in order, or the error of the call. The result is the array of
  services, or the error thrown.\<close>

definition enumerateServices :: "string \<Rightarrow> exn + (string \<times> jsval) list \<Rightarrow> exn + jsval" where
  "enumerateServices devicePath reply =
     (case reply of
        Inl e \<Rightarrow> Inl e
      | Inr objects \<Rightarrow>
          (case servicesLoop devicePath objects objects of
             Inl e \<Rightarrow> Inl e
           | Inr services \<Rightarrow> Inr (Arr services)))"

text \<open>\<^verbatim>\<open>discoverServices\<close>: it waits with a budget of 30000 ms; while the wait is open it
  has not returned (\<open>None\<close>), a rejected wait rejects it with the same error, and once the
  wait is resolved it enumerates the services.\<close>

datatype discovery_outcome = WaitFails string | Enumerated "exn + jsval"

definition discoverServices ::
  "string \<Rightarrow> string + jsval \<Rightarrow> wait_event list \<Rightarrow> exn + (string \<times> jsval) list \<Rightarrow>
     discovery_outcome option" where
  "discoverServices devicePath readResult evs reply =
     (case waitState (foldl waitStep (waitForServicesResolved devicePath 30000 readResult) evs) of
        Waiting \<Rightarrow> None
      | Resolved_wait \<Rightarrow> Some (Enumerated (enumerateServices devicePath reply))
      | Rejected_wait msg \<Rightarrow> Some (WaitFails msg))"

text \<open>An event that carries the flag as true for the MAC of the device path.\<close>

fun resolves :: "string \<Rightarrow> wait_event \<Rightarrow> bool" where
  "resolves devicePath (DeviceChanged changedMac updates) =
     (changedMac = devicePathToMac devicePath \<and> field updates ''servicesResolved'' = Bool True)"
| "resolves devicePath TimerExpires = False"

definition decisive :: "string \<Rightarrow> wait_event \<Rightarrow> bool" where
  "decisive devicePath ev = (ev = TimerExpires \<or> resolves devicePath ev)"

lemma wait_settled_stays:
  "\<not> subscribed w \<Longrightarrow> waitTimer w = None \<Longrightarrow> foldl waitStep w evs = w"
proof (induction evs)
  case Nil
  then show ?case by simp
next
  case (Cons ev evs)
  then have "waitStep w ev = w" by (cases ev) (simp_all add: onChange_def onTimeout_def)
  with Cons show ?case by simp
qed

lemma wait_indecisive:
  assumes "subscribed w" and "waitMac w = devicePathToMac devicePath"
    and "list_all (\<lambda>ev. \<not> decisive devicePath ev) evs"
  shows "foldl waitStep w evs = w"
  using assms
proof (induction evs)
  case Nil
  then show ?case by simp
next
  case (Cons ev evs)
  then have "waitStep w ev = w"
    by (cases ev) (auto simp: onChange_def decisive_def)
  with Cons show ?case by simp
qed

lemma discoverServices_cases:
  assumes "readResult \<noteq> Inr (Bool True)"
    and "list_all (\<lambda>ev. \<not> decisive devicePath ev) pre"
  shows "discoverServices devicePath readResult pre reply = None"
    and "resolves devicePath ev \<Longrightarrow>
         discoverServices devicePath readResult (pre @ ev # post) reply = Some (Enumerated (enumerateServices devicePath reply))"
    and "discoverServices devicePath readResult (pre @ TimerExpires # post) reply =
         Some (WaitFails (''ServicesResolved timeout for '' @ devicePath))"
proof -
  let ?w = "waitForServicesResolved devicePath 30000 readResult"
  have w: "?w = \<lparr>waitMac = devicePathToMac devicePath, waitPath = devicePath, subscribed = True,
            waitTimer = Some 30000, waitState = Waiting\<rparr>"
    using assms(1) by (simp add: waitForServicesResolved_def)
  have pre: "foldl waitStep ?w pre = ?w"
    by (rule wait_indecisive[of _ devicePath]) (simp_all add: w assms(2))
  show "discoverServices devicePath readResult pre reply = None"
    unfolding discoverServices_def pre by (simp add: w)
  show "discoverServices devicePath readResult (pre @ ev # post) reply = Some (Enumerated (enumerateServices devicePath reply))"
    if r: "resolves devicePath ev"
  proof -
    from r obtain cm upd where ev: "ev = DeviceChanged cm upd" by (cases ev) auto
    have s: "onChange cm upd ?w =
        ?w\<lparr>waitTimer := None, subscribed := False, waitState := Resolved_wait\<rparr>"
      using r unfolding ev by (simp add: onChange_def w)
    have "foldl waitStep ?w (pre @ ev # post) = foldl waitStep (onChange cm upd ?w) post"
      by (simp add: pre ev)
    also have "\<dots> = onChange cm upd ?w"
      by (rule wait_settled_stays) (simp_all add: s)
    finally show ?thesis unfolding discoverServices_def by (simp add: s)
  qed
  show "discoverServices devicePath readResult (pre @ TimerExpires # post) reply =
         Some (WaitFails (''ServicesResolved timeout for '' @ devicePath))"
  proof -
    have s: "onTimeout ?w = ?w\<lparr>waitTimer := None, subscribed := False,
        waitState := Rejected_wait (''ServicesResolved timeout for '' @ devicePath)\<rparr>"
      by (simp add: onTimeout_def w)
    have "foldl waitStep ?w (pre @ TimerExpires # post) = foldl waitStep (onTimeout ?w) post"
      by (simp add: pre)
    also have "\<dots> = onTimeout ?w"
      by (rule wait_settled_stays) (simp_all add: s)
    finally show ?thesis unfolding discoverServices_def by (simp add: s)
  qed
qed

text \<open>
  C4. \<^verbatim>\<open>discoverServices\<close> first waits for the services-resolved flag of the device. When
  the direct read of the flag gives true, the wait is over at once, with no listener
  subscribed and no timer armed, and discovery enumerates the services whatever events
  follow. Otherwise the wait subscribes with a timer of 30000 ms, and of the events that
  follow the first decisive one settles it: before any, discovery has not returned; a
  \<^verbatim>\<open>deviceChanged\<close> event for the MAC of the device path that carries
  \<^verbatim>\<open>servicesResolved\<close> as true lets it go on; the expiry of the timer rejects it with the
  timeout error. Events for other devices or without the flag as true decide nothing.
\<close>

theorem discoverServices_waits_for_flag:
  "(subscribed (waitForServicesResolved devicePath 30000 (Inr (Bool True))) = False \<and>
    waitTimer (waitForServicesResolved devicePath 30000 (Inr (Bool True))) = None \<and>
    discoverServices devicePath (Inr (Bool True)) evs reply = Some (Enumerated (enumerateServices devicePath reply))) \<and>
   (readResult \<noteq> Inr (Bool True) \<and> list_all (\<lambda>ev. \<not> decisive devicePath ev) pre \<longrightarrow>
      subscribed (waitForServicesResolved devicePath 30000 readResult) \<and>
      waitTimer (waitForServicesResolved devicePath 30000 readResult) = Some 30000 \<and>
      discoverServices devicePath readResult pre reply = None \<and>
      (resolves devicePath ev \<longrightarrow>
         discoverServices devicePath readResult (pre @ ev # post) reply = Some (Enumerated (enumerateServices devicePath reply))) \<and>
      discoverServices devicePath readResult (pre @ TimerExpires # post) reply =
         Some (WaitFails (''ServicesResolved timeout for '' @ devicePath)))"
proof (intro conjI impI)
  let ?w = "waitForServicesResolved devicePath 30000 (Inr (Bool True))"
  show "subscribed ?w = False" "waitTimer ?w = None"
    by (simp_all add: waitForServicesResolved_def)
  have "foldl waitStep ?w evs = ?w"
    by (rule wait_settled_stays) (simp_all add: waitForServicesResolved_def)
  then show "discoverServices devicePath (Inr (Bool True)) evs reply = Some (Enumerated (enumerateServices devicePath reply))"
    unfolding discoverServices_def by (simp add: waitForServicesResolved_def)
next
  assume a: "readResult \<noteq> Inr (Bool True) \<and> list_all (\<lambda>ev. \<not> decisive devicePath ev) pre"
  then show "subscribed (waitForServicesResolved devicePath 30000 readResult)"
    "waitTimer (waitForServicesResolved devicePath 30000 readResult) = Some 30000"
    by (simp_all add: waitForServicesResolved_def)
  from a show "discoverServices devicePath readResult pre reply = None"
    using discoverServices_cases(1) by blast
  from a show "discoverServices devicePath readResult (pre @ TimerExpires # post) reply =
         Some (WaitFails (''ServicesResolved timeout for '' @ devicePath))"
    using discoverServices_cases(3) by blast
  assume "resolves devicePath ev"
  with a show "discoverServices devicePath readResult (pre @ ev # post) reply = Some (Enumerated (enumerateServices devicePath reply))"
    using discoverServices_cases(2) by blast
qed

lemma example_device_path:
  "devicePathToMac ''/org/bluez/hci0/dev_AA_BB_CC_DD_EE_FF'' = ''AA:BB:CC:DD:EE:FF''"
  by (simp add: devicePathToMac_def devPatternAt_def startsWith_def isHexDigit_def
      toUpperCase_def replaceChars_def upperChar_def eval_nat_numeral)

text \<open>The managed objects of a device with one service that has one characteristic.\<close>

definition exampleObjects :: "(string \<times> jsval) list" where
  "exampleObjects =
     [(''/org/bluez/hci0/dev_AA_BB_CC_DD_EE_FF'', Obj [(''org.bluez.Device1'', Obj [])]),
      (''/org/bluez/hci0/dev_AA_BB_CC_DD_EE_FF/service000a'',
         Obj [(''org.bluez.GattService1'', Obj [(''UUID'', Obj [(''signature'', Str ''s''),
                                                               (''value'', Str ''180f'')])])]),
      (''/org/bluez/hci0/dev_AA_BB_CC_DD_EE_FF/service000a/char000b'',
         Obj [(''org.bluez.GattCharacteristic1'',
               Obj [(''UUID'', Obj [(''signature'', Str ''s''), (''value'', Str ''2a19'')]),
                    (''Flags'', Obj [(''signature'', Str ''as''),
                                    (''value'', Arr [Str ''read'', Str ''notify''])])])])]"

lemma example_unwrap:
  "unwrapVariants (Obj [(''UUID'', Obj [(''signature'', Str ''s''), (''value'', Str ''180f'')])]) =
     Obj [(''UUID'', Str ''180f'')]"
  "unwrapVariants (Obj [(''UUID'', Obj [(''signature'', Str ''s''), (''value'', Str ''2a19'')]),
                        (''Flags'', Obj [(''signature'', Str ''as''),
                                        (''value'', Arr [Str ''read'', Str ''notify''])])]) =
     Obj [(''UUID'', Str ''2a19''), (''Flags'', Arr [Str ''read'', Str ''notify''])]"
  by (simp_all add: unwrapVariants_def isObjectType_def entriesOf_def isVariant_def)

lemma example_characteristics:
  "characteristicsLoop ''/org/bluez/hci0/dev_AA_BB_CC_DD_EE_FF/service000a'' exampleObjects =
     Inr [Obj [(''uuid'', Str ''2a19''),
               (''path'', Str ''/org/bluez/hci0/dev_AA_BB_CC_DD_EE_FF/service000a/char000b''),
               (''flags'', Arr [Str ''read'', Str ''notify''])]]"
  by (simp add: exampleObjects_def startsWith_def getMember_def GATT_CHAR_IFACE_def
      example_unwrap orElse_def)

lemma example_enumeration:
  "enumerateServices ''/org/bluez/hci0/dev_AA_BB_CC_DD_EE_FF'' (Inr exampleObjects) =
     Inr (Arr [Obj [(''uuid'', Str ''180f''),
                    (''path'', Str ''/org/bluez/hci0/dev_AA_BB_CC_DD_EE_FF/service000a''),
                    (''primary'', Bool True),
                    (''characteristics'',
                       Arr [Obj [(''uuid'', Str ''2a19''),
                                 (''path'', Str ''/org/bluez/hci0/dev_AA_BB_CC_DD_EE_FF/service000a/char000b''),
                                 (''flags'', Arr [Str ''read'', Str ''notify''])]])]])"
proof -
  have "servicesLoop ''/org/bluez/hci0/dev_AA_BB_CC_DD_EE_FF'' exampleObjects
      [(''/org/bluez/hci0/dev_AA_BB_CC_DD_EE_FF'', Obj [(''org.bluez.Device1'', Obj [])]),
      (''/org/bluez/hci0/dev_AA_BB_CC_DD_EE_FF/service000a'',
         Obj [(''org.bluez.GattService1'', Obj [(''UUID'', Obj [(''signature'', Str ''s''),
                                                               (''value'', Str ''180f'')])])]),
      (''/org/bluez/hci0/dev_AA_BB_CC_DD_EE_FF/service000a/char000b'',
         Obj [(''org.bluez.GattCharacteristic1'',
               Obj [(''UUID'', Obj [(''signature'', Str ''s''), (''value'', Str ''2a19'')]),
                    (''Flags'', Obj [(''signature'', Str ''as''),
                                    (''value'', Arr [Str ''read'', Str ''notify''])])])])] =
     Inr [Obj [(''uuid'', Str ''180f''),
                    (''path'', Str ''/org/bluez/hci0/dev_AA_BB_CC_DD_EE_FF/service000a''),
                    (''primary'', Bool True),
                    (''characteristics'',
                       Arr [Obj [(''uuid'', Str ''2a19''),
                                 (''path'', Str ''/org/bluez/hci0/dev_AA_BB_CC_DD_EE_FF/service000a/char000b''),
                                 (''flags'', Arr [Str ''read'', Str ''notify''])]])]]"
    by (simp add: startsWith_def getMember_def GATT_SERVICE_IFACE_def example_unwrap
        example_characteristics orElse_def nullish_def)
  then have "servicesLoop ''/org/bluez/hci0/dev_AA_BB_CC_DD_EE_FF'' exampleObjects exampleObjects =
     Inr [Obj [(''uuid'', Str ''180f''),
                    (''path'', Str ''/org/bluez/hci0/dev_AA_BB_CC_DD_EE_FF/service000a''),
                    (''primary'', Bool True),
                    (''characteristics'',
                       Arr [Obj [(''uuid'', Str ''2a19''),
                                 (''path'', Str ''/org/bluez/hci0/dev_AA_BB_CC_DD_EE_FF/service000a/char000b''),
                                 (''flags'', Arr [Str ''read'', Str ''notify''])]])]]"
    by (simp add: exampleObjects_def[symmetric])
  then show ?thesis by (simp add: enumerateServices_def)
qed

theorem discoverServices_waits_for_flag_witness:
  "Inr (Bool False) \<noteq> (Inr (Bool True) :: string + jsval) \<and>
   list_all (\<lambda>ev. \<not> decisive ''/org/bluez/hci0/dev_AA_BB_CC_DD_EE_FF'' ev)
     [DeviceChanged ''11:22:33:44:55:66'' (Obj [(''servicesResolved'', Bool True)]),
      DeviceChanged ''AA:BB:CC:DD:EE:FF'' (Obj [(''rssi'', Number (Num (- 60)))])] \<and>
   resolves ''/org/bluez/hci0/dev_AA_BB_CC_DD_EE_FF''
     (DeviceChanged ''AA:BB:CC:DD:EE:FF'' (Obj [(''servicesResolved'', Bool True)])) \<and>
   discoverServices ''/org/bluez/hci0/dev_AA_BB_CC_DD_EE_FF'' (Inr (Bool False))
     ([DeviceChanged ''11:22:33:44:55:66'' (Obj [(''servicesResolved'', Bool True)]),
       DeviceChanged ''AA:BB:CC:DD:EE:FF'' (Obj [(''rssi'', Number (Num (- 60)))])] @
      DeviceChanged ''AA:BB:CC:DD:EE:FF'' (Obj [(''servicesResolved'', Bool True)]) #
      [TimerExpires]) (Inr exampleObjects) =
     Some (Enumerated (enumerateServices ''/org/bluez/hci0/dev_AA_BB_CC_DD_EE_FF'' (Inr exampleObjects))) \<and>
   discoverServices ''/org/bluez/hci0/dev_AA_BB_CC_DD_EE_FF'' (Inr (Bool False))
     ([DeviceChanged ''11:22:33:44:55:66'' (Obj [(''servicesResolved'', Bool True)]),
       DeviceChanged ''AA:BB:CC:DD:EE:FF'' (Obj [(''rssi'', Number (Num (- 60)))])] @
      TimerExpires #
      [DeviceChanged ''AA:BB:CC:DD:EE:FF'' (Obj [(''servicesResolved'', Bool True)])])
     (Inr exampleObjects) =
     Some (WaitFails ''ServicesResolved timeout for /org/bluez/hci0/dev_AA_BB_CC_DD_EE_FF'')"
proof -
  have h1: "Inr (Bool False) \<noteq> (Inr (Bool True) :: string + jsval)" by simp
  have h2: "list_all (\<lambda>ev. \<not> decisive ''/org/bluez/hci0/dev_AA_BB_CC_DD_EE_FF'' ev)
     [DeviceChanged ''11:22:33:44:55:66'' (Obj [(''servicesResolved'', Bool True)]),
      DeviceChanged ''AA:BB:CC:DD:EE:FF'' (Obj [(''rssi'', Number (Num (- 60)))])]"
    by (simp add: decisive_def example_device_path)
  have h3: "resolves ''/org/bluez/hci0/dev_AA_BB_CC_DD_EE_FF''
     (DeviceChanged ''AA:BB:CC:DD:EE:FF'' (Obj [(''servicesResolved'', Bool True)]))"
    by (simp add: example_device_path)
  show ?thesis
    using h1 h2 h3
      discoverServices_waits_for_flag[of "''/org/bluez/hci0/dev_AA_BB_CC_DD_EE_FF''" "[]"
        "Inr exampleObjects" "Inr (Bool False)"
        "[DeviceChanged ''11:22:33:44:55:66'' (Obj [(''servicesResolved'', Bool True)]),
          DeviceChanged ''AA:BB:CC:DD:EE:FF'' (Obj [(''rssi'', Number (Num (- 60)))])]"
        "DeviceChanged ''AA:BB:CC:DD:EE:FF'' (Obj [(''servicesResolved'', Bool True)])"
        "[TimerExpires]"]
      discoverServices_waits_for_flag[of "''/org/bluez/hci0/dev_AA_BB_CC_DD_EE_FF''" "[]"
        "Inr exampleObjects" "Inr (Bool False)"
        "[DeviceChanged ''11:22:33:44:55:66'' (Obj [(''servicesResolved'', Bool True)]),
          DeviceChanged ''AA:BB:CC:DD:EE:FF'' (Obj [(''rssi'', Number (Num (- 60)))])]"
        "DeviceChanged ''AA:BB:CC:DD:EE:FF'' (Obj [(''servicesResolved'', Bool True)])"
        "[DeviceChanged ''AA:BB:CC:DD:EE:FF'' (Obj [(''servicesResolved'', Bool True)])]"]
    by simp
qed

subsection \<open>The manager and its handlers\<close>

text \<open>The events the manager emits.\<close>

datatype mgr_event =
    DeviceFound string jsval
  | DeviceChangedEvent string jsval
  | DeviceRemoved string
  | CharacteristicChanged jsval "nat list"
  | MediaPlayerAdded jsval jsval
  | MediaPlayerRemoved jsval jsval
  | MediaPlayerChanged jsval jsval

text \<open>
  The state the dispatcher works on: the destroyed flag, the index of the adapter, the
  device cache by MAC, the paths with a cached proxy, the characteristic paths with a
  notify callback and the calls these callbacks got, the events emitted, what the
  listeners of an event throw (\<open>None\<close> when they return), and what the catch clause of
  the dispatcher logged.
\<close>

record manager =
  managerDestroyed :: bool
  hci :: nat
  devices :: "string \<rightharpoonup> jsval"
  deviceProxies :: "string list"
  notifyHandlers :: "jsval list"
  notified :: "(jsval \<times> nat list) list"
  managerEvents :: "mgr_event list"
  listenerThrows :: "mgr_event \<Rightarrow> exn option"
  debugLog :: "exn list"

text \<open>A step of a handler leaves the state it reached and, when it threw, what was
  thrown. \<open>emit\<close> records the event and calls the listeners in the caller's stack: what a
  listener throws passes through it.\<close>

definition emit :: "mgr_event \<Rightarrow> manager \<Rightarrow> manager \<times> exn option" where
  "emit ev st = (st\<lparr>managerEvents := managerEvents st @ [ev]\<rparr>, listenerThrows st ev)"

text \<open>Sequencing: after a throw nothing more is done.\<close>

definition andThen ::
  "manager \<times> exn option \<Rightarrow> (manager \<Rightarrow> manager \<times> exn option) \<Rightarrow> manager \<times> exn option" where
  "andThen r f = (case snd r of None \<Rightarrow> f (fst r) | Some e \<Rightarrow> r)"

text \<open>The MAC of a new device: the upper-case address when the properties have a
  truthy one (which must be a string), else the MAC in the path.\<close>

definition macOfAdded :: "jsval \<Rightarrow> string \<Rightarrow> exn + string" where
  "macOfAdded props path =
     (let address = field props ''Address''
      in if truthy address
         then (case address of Str a \<Rightarrow> Inr (toUpperCase a) | _ \<Rightarrow> Inl TypeError)
         else Inr (devicePathToMac path))"

text \<open>\<^verbatim>\<open>_onInterfacesAdded\<close>.\<close>

definition onInterfacesAdded :: "jsval \<Rightarrow> jsval \<Rightarrow> manager \<Rightarrow> manager \<times> exn option" where
  "onInterfacesAdded path interfaces st =
     (case getMember interfaces MEDIA_PLAYER_IFACE of
        Inl e \<Rightarrow> (st, Some e)
      | Inr player \<Rightarrow>
          andThen
            (if truthy player
             then (case startsWithJs path (adapterPath (hci st)) of
                     Inl e \<Rightarrow> (st, Some e)
                   | Inr inScope \<Rightarrow>
                       if inScope then emit (MediaPlayerAdded path interfaces) st else (st, None))
             else (st, None))
            (\<lambda>st.
               if \<not> truthy (field interfaces DEVICE_IFACE) then (st, None)
               else (case startsWithJs path (adapterPath (hci st)) of
                       Inl e \<Rightarrow> (st, Some e)
                     | Inr inScope \<Rightarrow>
                         if \<not> inScope then (st, None)
                         else (let props = unwrapVariants (field interfaces DEVICE_IFACE)
                               in case macOfAdded props (case path of Str p \<Rightarrow> p | _ \<Rightarrow> []) of
                                    Inl e \<Rightarrow> (st, Some e)
                                  | Inr m \<Rightarrow>
                                      if m = [] then (st, None)
                                      else (case buildDeviceInfo path props of
                                              Inl e \<Rightarrow> (st, Some e)
                                            | Inr info \<Rightarrow>
                                                (let deviceInfo =
                                                   (if truthy (field interfaces BATTERY_IFACE)
                                                    then setField info ''battery''
                                                           (nullish
                                                              (field (unwrapVariants (field interfaces BATTERY_IFACE))
                                                                 ''Percentage'') Null)
                                                    else info)
                                                 in emit (DeviceFound m deviceInfo)
                                                      (st\<lparr>devices := (devices st)(m \<mapsto> deviceInfo)\<rparr>)))))))"

text \<open>\<^verbatim>\<open>devicePathToMac\<close> on a value: only a string has \<^verbatim>\<open>match\<close>.\<close>

definition devicePathToMacJs :: "jsval \<Rightarrow> exn + string" where
  "devicePathToMacJs v = (case v of Str p \<Rightarrow> Inr (devicePathToMac p) | _ \<Rightarrow> Inl TypeError)"

text \<open>\<^verbatim>\<open>_onInterfacesRemoved\<close>.\<close>

definition onInterfacesRemoved :: "jsval \<Rightarrow> jsval \<Rightarrow> manager \<Rightarrow> manager \<times> exn option" where
  "onInterfacesRemoved path interfaces st =
     (case includesJs interfaces MEDIA_PLAYER_IFACE of
        Inl e \<Rightarrow> (st, Some e)
      | Inr player \<Rightarrow>
          andThen
            (if player then emit (MediaPlayerRemoved path interfaces) st else (st, None))
            (\<lambda>st.
               case includesJs interfaces DEVICE_IFACE of
                 Inl e \<Rightarrow> (st, Some e)
               | Inr device \<Rightarrow>
                   if \<not> device then (st, None)
                   else (case devicePathToMacJs path of
                           Inl e \<Rightarrow> (st, Some e)
                         | Inr m \<Rightarrow>
                             if m = [] then (st, None)
                             else emit (DeviceRemoved m)
                                    (st\<lparr>devices := (devices st)(m := None),
                                        deviceProxies :=
                                          filter (\<lambda>p. Str p \<noteq> path) (deviceProxies st)\<rparr>))))"

text \<open>The ten properties \<^verbatim>\<open>_onDevicePropertiesChanged\<close> copies as they are, with the
  field of the record each goes to, in the order of the source.\<close>

definition plainProperties :: "(string \<times> string) list" where
  "plainProperties =
     [(''RSSI'', ''rssi''), (''Connected'', ''connected''), (''Paired'', ''paired''),
      (''Bonded'', ''bonded''), (''Trusted'', ''trusted''), (''Blocked'', ''blocked''),
      (''Name'', ''name''), (''Alias'', ''alias''), (''TxPower'', ''txPower''),
      (''ServicesResolved'', ''servicesResolved'')]"

text \<open>One of these steps: a property that is in the change goes to the record and to
  the updates.\<close>

definition copyProperty ::
  "jsval \<Rightarrow> string \<times> string \<Rightarrow> jsval \<times> (string \<times> jsval) list \<Rightarrow> jsval \<times> (string \<times> jsval) list" where
  "copyProperty unwrapped pf du =
     (if hasKey unwrapped (fst pf)
      then (setField (fst du) (snd pf) (field unwrapped (fst pf)),
            assign (snd pf) (field unwrapped (fst pf)) (snd du))
      else du)"

text \<open>\<^verbatim>\<open>_onDevicePropertiesChanged\<close> for a path that is a string. The record is changed
  in place: what was assigned before a throw stays.\<close>

definition onDevicePropertiesChanged :: "string \<Rightarrow> jsval \<Rightarrow> manager \<Rightarrow> manager \<times> exn option" where
  "onDevicePropertiesChanged path changed st =
     (let m = devicePathToMac path
      in if m = [] then (st, None)
         else (case (case devices st m of
                       Some device \<Rightarrow> Inr device
                     | None \<Rightarrow>
                         (case buildDeviceInfo (Str path) (Obj []) of
                            Inl e \<Rightarrow> Inl e
                          | Inr stub \<Rightarrow> Inr (setField stub ''address'' (Str m)))) of
                 Inl e \<Rightarrow> (st, Some e)
               | Inr device0 \<Rightarrow>
                   (let unwrapped = unwrapVariants changed;
                        (device1, updates1) = foldl (\<lambda>du pf. copyProperty unwrapped pf du)
                                                (device0, []) plainProperties
                    in if hasKey unwrapped ''ManufacturerData''
                       then (case parseManufacturerData (field unwrapped ''ManufacturerData'') of
                               Inl e \<Rightarrow> (st\<lparr>devices := (devices st)(m \<mapsto> device1)\<rparr>, Some e)
                             | Inr md \<Rightarrow>
                                 (let device2 = setField device1 ''manufacturerData'' md;
                                      updates2 = assign ''manufacturerData'' md updates1;
                                      sd = parseServiceData (field unwrapped ''ServiceData'');
                                      device3 = (if hasKey unwrapped ''ServiceData''
                                                 then setField device2 ''serviceData'' sd else device2);
                                      updates3 = (if hasKey unwrapped ''ServiceData''
                                                  then assign ''serviceData'' sd updates2 else updates2)
                                  in emit (DeviceChangedEvent m (Obj updates3))
                                       (st\<lparr>devices := (devices st)(m \<mapsto> device3)\<rparr>)))
                       else (let sd = parseServiceData (field unwrapped ''ServiceData'');
                                 device3 = (if hasKey unwrapped ''ServiceData''
                                            then setField device1 ''serviceData'' sd else device1);
                                 updates3 = (if hasKey unwrapped ''ServiceData''
                                             then assign ''serviceData'' sd updates1 else updates1);
                                 st3 = st\<lparr>devices := (devices st)(m \<mapsto> device3)\<rparr>
                             in if updates3 = [] then (st3, None)
                                else emit (DeviceChangedEvent m (Obj updates3)) st3))))"

text \<open>\<^verbatim>\<open>_onBatteryChanged\<close> for a path that is a string.\<close>

definition onBatteryChanged :: "string \<Rightarrow> jsval \<Rightarrow> manager \<Rightarrow> manager \<times> exn option" where
  "onBatteryChanged path changed st =
     (let m = devicePathToMac path
      in if m = [] then (st, None)
         else (case devices st m of
                 None \<Rightarrow> (st, None)
               | Some device \<Rightarrow>
                   (let unwrapped = unwrapVariants changed
                    in if hasKey unwrapped ''Percentage''
                       then emit (DeviceChangedEvent m (Obj [(''battery'', field unwrapped ''Percentage'')]))
                              (st\<lparr>devices := (devices st)
                                    (m \<mapsto> setField device ''battery'' (field unwrapped ''Percentage''))\<rparr>)
                       else (st, None))))"

text \<open>The branch of a characteristic: the value becomes bytes, the callback of the path
  is called inside its own try, and the event is emitted.\<close>

definition onCharacteristicChanged :: "jsval \<Rightarrow> jsval \<Rightarrow> manager \<Rightarrow> manager \<times> exn option" where
  "onCharacteristicChanged path changed st =
     (let unwrapped = unwrapVariants changed
      in if hasKey unwrapped ''Value''
         then (case bufferFrom (orElse (field unwrapped ''Value'') (Arr [])) of
                 Inl e \<Rightarrow> (st, Some e)
               | Inr buf \<Rightarrow>
                   emit (CharacteristicChanged path buf)
                     (if path \<in> set (notifyHandlers st)
                      then st\<lparr>notified := notified st @ [(path, buf)]\<rparr> else st))
         else (st, None))"

text \<open>\<^verbatim>\<open>_onPropertiesChanged\<close>: the four tests in the order of the source. The interface
  name is compared first; only when it is the one of the branch is the path asked for
  its prefix.\<close>

definition onPropertiesChanged :: "jsval \<Rightarrow> jsval \<Rightarrow> jsval \<Rightarrow> manager \<Rightarrow> manager \<times> exn option" where
  "onPropertiesChanged path iface changed st =
     (if iface = Str DEVICE_IFACE then
        (case startsWithJs path (adapterPath (hci st) @ ''/dev_'') of
           Inl e \<Rightarrow> (st, Some e)
         | Inr inScope \<Rightarrow>
             if inScope
             then onDevicePropertiesChanged (case path of Str p \<Rightarrow> p | _ \<Rightarrow> []) changed st
             else (st, None))
      else if iface = Str BATTERY_IFACE then
        (case startsWithJs path (adapterPath (hci st) @ ''/dev_'') of
           Inl e \<Rightarrow> (st, Some e)
         | Inr inScope \<Rightarrow>
             if inScope
             then onBatteryChanged (case path of Str p \<Rightarrow> p | _ \<Rightarrow> []) changed st
             else (st, None))
      else if iface = Str MEDIA_PLAYER_IFACE then
        (case startsWithJs path (adapterPath (hci st)) of
           Inl e \<Rightarrow> (st, Some e)
         | Inr inScope \<Rightarrow>
             if inScope then emit (MediaPlayerChanged path (unwrapVariants changed)) st
             else (st, None))
      else if iface = Str GATT_CHAR_IFACE \<and> truthy changed then
        onCharacteristicChanged path changed st
      else (st, None))"

text \<open>The body of the try block of \<^verbatim>\<open>_onDbusMessage\<close>.\<close>

definition dispatchBody :: "jsval \<Rightarrow> manager \<Rightarrow> manager \<times> exn option" where
  "dispatchBody msg st =
     (if field msg ''interface'' = Str OBJECT_MANAGER_IFACE \<and>
         field msg ''member'' = Str ''InterfacesAdded'' \<and> truthy (field msg ''body'')
      then (case elements (field msg ''body'') of
              Inl e \<Rightarrow> (st, Some e)
            | Inr xs \<Rightarrow> onInterfacesAdded (nthOrUndefined xs 0) (nthOrUndefined xs 1) st)
      else if field msg ''interface'' = Str OBJECT_MANAGER_IFACE \<and>
         field msg ''member'' = Str ''InterfacesRemoved'' \<and> truthy (field msg ''body'')
      then (case elements (field msg ''body'') of
              Inl e \<Rightarrow> (st, Some e)
            | Inr xs \<Rightarrow> onInterfacesRemoved (nthOrUndefined xs 0) (nthOrUndefined xs 1) st)
      else if field msg ''interface'' = Str PROPERTIES_IFACE \<and>
         field msg ''member'' = Str ''PropertiesChanged'' \<and> truthy (field msg ''body'') \<and>
         truthy (field msg ''path'')
      then (case elements (field msg ''body'') of
              Inl e \<Rightarrow> (st, Some e)
            | Inr xs \<Rightarrow>
                onPropertiesChanged (field msg ''path'') (nthOrUndefined xs 0) (nthOrUndefined xs 1) st)
      else (st, None))"

text \<open>The catch clause of \<^verbatim>\<open>_onDbusMessage\<close> builds its log line from \<^verbatim>\<open>e.message\<close>.
  Every value but \<^verbatim>\<open>null\<close> and \<^verbatim>\<open>undefined\<close> can be asked for a property; on these two the
  read throws a \<^verbatim>\<open>TypeError\<close>. \<open>readMessage\<close> is the error of that read, when there is
  one.\<close>

definition readMessage :: "exn \<Rightarrow> exn option" where
  "readMessage e =
     (case e of
        Thrown v \<Rightarrow> (case getMember v ''message'' of Inl t \<Rightarrow> Some t | Inr _ \<Rightarrow> None)
      | _ \<Rightarrow> None)"

text \<open>\<^verbatim>\<open>_onDbusMessage\<close>: the guard, then the try block with its catch clause, which reads
  the message of what was thrown and logs it. The catch clause is not inside a try of
  its own: an error it raises leaves the dispatcher. The second component of the result
  is what leaves the dispatcher.\<close>

definition onDbusMessage :: "jsval \<Rightarrow> manager \<Rightarrow> manager \<times> exn option" where
  "onDbusMessage msg st =
     (if managerDestroyed st \<or> \<not> truthy msg \<or> \<not> truthy (field msg ''interface'') then (st, None)
      else (case dispatchBody msg st of
              (st', None) \<Rightarrow> (st', None)
            | (st', Some e) \<Rightarrow>
                (case readMessage e of
                   Some t \<Rightarrow> (st', Some t)
                 | None \<Rightarrow> (st'\<lparr>debugLog := debugLog st' @ [e]\<rparr>, None))))"

text \<open>The bus delivers its notifications one after the other to the dispatcher; an
  error that left the dispatcher would end the delivery there.\<close>

fun deliver :: "jsval list \<Rightarrow> manager \<Rightarrow> manager \<times> exn option" where
  "deliver [] st = (st, None)"
| "deliver (msg # msgs) st =
     (case onDbusMessage msg st of
        (st', Some e) \<Rightarrow> (st', Some e)
      | (st', None) \<Rightarrow> deliver msgs st')"

subsection \<open>Errors in the dispatcher\<close>

text \<open>The device a notification is about: for a new object the address its device
  properties give, else the MAC in its path; for a removed object the MAC in its path;
  for changed properties the MAC in the path of the notification.\<close>

definition subjectMac :: "jsval \<Rightarrow> string option" where
  "subjectMac msg =
     (if field msg ''member'' = Str ''InterfacesAdded'' then
        (case elements (field msg ''body'') of
           Inl _ \<Rightarrow> None
         | Inr xs \<Rightarrow>
             (case nthOrUndefined xs 0 of
                Str p \<Rightarrow>
                  (case macOfAdded (unwrapVariants (field (nthOrUndefined xs 1) DEVICE_IFACE)) p of
                     Inl _ \<Rightarrow> None
                   | Inr m \<Rightarrow> Some m)
              | _ \<Rightarrow> None))
      else if field msg ''member'' = Str ''InterfacesRemoved'' then
        (case elements (field msg ''body'') of
           Inl _ \<Rightarrow> None
         | Inr xs \<Rightarrow> (case nthOrUndefined xs 0 of Str p \<Rightarrow> Some (devicePathToMac p) | _ \<Rightarrow> None))
      else (case field msg ''path'' of Str p \<Rightarrow> Some (devicePathToMac p) | _ \<Rightarrow> None))"

lemma emit_devices: "devices (fst (emit ev st)) = devices st"
  by (simp add: emit_def)

lemma startsWithJs_string: "startsWithJs v p = Inr b \<Longrightarrow> \<exists>s. v = Str s"
  by (cases v) (simp_all add: startsWithJs_def)

lemma added_frame:
  assumes "devices (fst (onInterfacesAdded path interfaces st)) k \<noteq> devices st k"
  shows "\<exists>p. path = Str p \<and> macOfAdded (unwrapVariants (field interfaces DEVICE_IFACE)) p = Inr k"
proof -
  obtain player where pl: "getMember interfaces MEDIA_PLAYER_IFACE = Inr player"
    using assms by (cases "getMember interfaces MEDIA_PLAYER_IFACE") (simp_all add: onInterfacesAdded_def)
  let ?first = "(if truthy player
             then (case startsWithJs path (adapterPath (hci st)) of
                     Inl e \<Rightarrow> (st, Some e)
                   | Inr inScope \<Rightarrow>
                       if inScope then emit (MediaPlayerAdded path interfaces) st else (st, None))
             else (st, None))"
  have d1: "devices (fst ?first) = devices st" "hci (fst ?first) = hci st"
    by (simp_all add: emit_def split: sum.splits)
  show ?thesis
  proof (cases "snd ?first")
    case (Some e)
    then have "fst (onInterfacesAdded path interfaces st) = fst ?first"
      by (simp add: onInterfacesAdded_def pl andThen_def)
    with assms d1 show ?thesis by simp
  next
    case None
    let ?st = "fst ?first"
    have r: "onInterfacesAdded path interfaces st =
       (if \<not> truthy (field interfaces DEVICE_IFACE) then (?st, None)
               else (case startsWithJs path (adapterPath (hci ?st)) of
                       Inl e \<Rightarrow> (?st, Some e)
                     | Inr inScope \<Rightarrow>
                         if \<not> inScope then (?st, None)
                         else (let props = unwrapVariants (field interfaces DEVICE_IFACE)
                               in case macOfAdded props (case path of Str p \<Rightarrow> p | _ \<Rightarrow> []) of
                                    Inl e \<Rightarrow> (?st, Some e)
                                  | Inr m \<Rightarrow>
                                      if m = [] then (?st, None)
                                      else (case buildDeviceInfo path props of
                                              Inl e \<Rightarrow> (?st, Some e)
                                            | Inr info \<Rightarrow>
                                                (let deviceInfo =
                                                   (if truthy (field interfaces BATTERY_IFACE)
                                                    then setField info ''battery''
                                                           (nullish
                                                              (field (unwrapVariants (field interfaces BATTERY_IFACE))
                                                                 ''Percentage'') Null)
                                                    else info)
                                                 in emit (DeviceFound m deviceInfo)
                                                      (?st\<lparr>devices := (devices ?st)(m \<mapsto> deviceInfo)\<rparr>))))))"
      using None by (simp add: onInterfacesAdded_def pl andThen_def)
    show ?thesis
    proof (cases "startsWithJs path (adapterPath (hci ?st))")
      case (Inl e)
      with assms d1 show ?thesis unfolding r by (simp split: if_splits)
    next
      case (Inr inScope)
      then obtain p where p: "path = Str p" using startsWithJs_string by blast
      show ?thesis
      proof (cases "macOfAdded (unwrapVariants (field interfaces DEVICE_IFACE)) p")
        case (Inl e)
        with assms d1 show ?thesis unfolding r by (simp add: p Let_def split: if_splits sum.splits)
      next
        case m: (Inr m)
        with assms d1 have "k = m"
          unfolding r
          by (auto simp: p Let_def emit_def split: if_splits sum.splits)
        with m p show ?thesis by simp
      qed
    qed
  qed
qed

lemma removed_frame:
  assumes "devices (fst (onInterfacesRemoved path interfaces st)) k \<noteq> devices st k"
  shows "\<exists>p. path = Str p \<and> k = devicePathToMac p"
  using assms
  by (cases path)
     (auto simp: onInterfacesRemoved_def andThen_def emit_def devicePathToMacJs_def
        split: sum.splits if_splits option.splits)

lemma device_changed_frame:
  assumes "devices (fst (onDevicePropertiesChanged p changed st)) k \<noteq> devices st k"
  shows "k = devicePathToMac p"
  using assms
  by (auto simp: onDevicePropertiesChanged_def emit_def Let_def case_prod_beta
      split: sum.splits if_splits option.splits)

lemma battery_changed_frame:
  assumes "devices (fst (onBatteryChanged p changed st)) k \<noteq> devices st k"
  shows "k = devicePathToMac p"
  using assms
  by (auto simp: onBatteryChanged_def emit_def Let_def split: if_splits option.splits)

lemma characteristic_frame:
  "devices (fst (onCharacteristicChanged path changed st)) = devices st"
  by (simp add: onCharacteristicChanged_def emit_def Let_def split: sum.splits)

lemma properties_frame:
  assumes "devices (fst (onPropertiesChanged path iface changed st)) k \<noteq> devices st k"
  shows "\<exists>p. path = Str p \<and> k = devicePathToMac p"
proof (cases path)
  case (Str p)
  with assms show ?thesis
    using device_changed_frame[of p changed st k] battery_changed_frame[of p changed st k]
    by (auto simp: onPropertiesChanged_def startsWithJs_def characteristic_frame emit_def
        split: if_splits)
qed (use assms in \<open>auto simp: onPropertiesChanged_def startsWithJs_def characteristic_frame
        split: if_splits\<close>)

lemma body_frame:
  assumes "devices (fst (dispatchBody msg st)) k \<noteq> devices st k"
  shows "subjectMac msg = Some k"
proof -
  consider (added) "field msg ''interface'' = Str OBJECT_MANAGER_IFACE \<and>
         field msg ''member'' = Str ''InterfacesAdded'' \<and> truthy (field msg ''body'')"
    | (removed) "field msg ''interface'' = Str OBJECT_MANAGER_IFACE \<and>
         field msg ''member'' = Str ''InterfacesRemoved'' \<and> truthy (field msg ''body'')"
    | (changed) "field msg ''interface'' = Str PROPERTIES_IFACE \<and>
         field msg ''member'' = Str ''PropertiesChanged'' \<and> truthy (field msg ''body'') \<and>
         truthy (field msg ''path'')"
    | (other) "dispatchBody msg st = (st, None)"
  proof -
    have "(field msg ''interface'' = Str OBJECT_MANAGER_IFACE \<and>
         field msg ''member'' = Str ''InterfacesAdded'' \<and> truthy (field msg ''body'')) \<or>
        (field msg ''interface'' = Str OBJECT_MANAGER_IFACE \<and>
         field msg ''member'' = Str ''InterfacesRemoved'' \<and> truthy (field msg ''body'')) \<or>
        (field msg ''interface'' = Str PROPERTIES_IFACE \<and>
         field msg ''member'' = Str ''PropertiesChanged'' \<and> truthy (field msg ''body'') \<and>
         truthy (field msg ''path'')) \<or>
        dispatchBody msg st = (st, None)"
    proof -
      have "dispatchBody msg st = (st, None)"
        if n1: "\<not> (field msg ''interface'' = Str OBJECT_MANAGER_IFACE \<and>
             field msg ''member'' = Str ''InterfacesAdded'' \<and> truthy (field msg ''body''))"
          and n2: "\<not> (field msg ''interface'' = Str OBJECT_MANAGER_IFACE \<and>
             field msg ''member'' = Str ''InterfacesRemoved'' \<and> truthy (field msg ''body''))"
          and n3: "\<not> (field msg ''interface'' = Str PROPERTIES_IFACE \<and>
             field msg ''member'' = Str ''PropertiesChanged'' \<and> truthy (field msg ''body'') \<and>
             truthy (field msg ''path''))"
        unfolding dispatchBody_def by (simp only: n1 n2 n3 if_False)
      then show ?thesis by blast
    qed
    then show ?thesis using that by blast
  qed
  then show ?thesis
  proof cases
    case added
    then obtain xs where xs: "elements (field msg ''body'') = Inr xs"
      using assms by (cases "elements (field msg ''body'')") (simp_all add: dispatchBody_def)
    with added assms
    have "devices (fst (onInterfacesAdded (nthOrUndefined xs 0) (nthOrUndefined xs 1) st)) k \<noteq> devices st k"
      by (simp add: dispatchBody_def)
    from added_frame[OF this] added xs show ?thesis
      by (auto simp: subjectMac_def)
  next
    case removed
    then have ne: "field msg ''member'' \<noteq> Str ''InterfacesAdded''" by simp
    from removed obtain xs where xs: "elements (field msg ''body'') = Inr xs"
      using assms by (cases "elements (field msg ''body'')") (simp_all add: dispatchBody_def)
    with removed assms
    have "devices (fst (onInterfacesRemoved (nthOrUndefined xs 0) (nthOrUndefined xs 1) st)) k \<noteq> devices st k"
      by (simp add: dispatchBody_def)
    from removed_frame[OF this] removed xs show ?thesis
      by (auto simp: subjectMac_def)
  next
    case changed
    then have ne: "field msg ''member'' \<noteq> Str ''InterfacesAdded''"
      "field msg ''member'' \<noteq> Str ''InterfacesRemoved''" by simp_all
    from changed obtain xs where xs: "elements (field msg ''body'') = Inr xs"
      using assms by (cases "elements (field msg ''body'')") (simp_all add: dispatchBody_def)
    with changed assms
    have "devices (fst (onPropertiesChanged (field msg ''path'') (nthOrUndefined xs 0)
        (nthOrUndefined xs 1) st)) k \<noteq> devices st k"
      by (simp add: dispatchBody_def)
    from properties_frame[OF this] changed show ?thesis
      by (auto simp: subjectMac_def)
  next
    case other
    with assms show ?thesis by simp
  qed
qed

lemma dispatcher_frame:
  assumes "subjectMac msg \<noteq> Some k"
  shows "devices (fst (onDbusMessage msg st)) k = devices st k"
proof -
  have b: "devices (fst (dispatchBody msg st)) k = devices st k"
    using assms body_frame by blast
  obtain st' r where d: "dispatchBody msg st = (st', r)" by (cases "dispatchBody msg st")
  with b have "devices st' k = devices st k" by simp
  with d show ?thesis
    by (cases r) (simp_all add: onDbusMessage_def split: option.splits)
qed

text \<open>Where an error of the try block comes from: the handlers themselves throw only
  \<^verbatim>\<open>TypeError\<close> and \<^verbatim>\<open>RangeError\<close>; anything else was thrown by a listener.\<close>

lemma operation_errors:
  "getMember v k = Inl e \<Longrightarrow> e = TypeError"
  "elements v = Inl e \<Longrightarrow> e = TypeError"
  "startsWithJs v p = Inl e \<Longrightarrow> e = TypeError"
  "includesJs v k = Inl e \<Longrightarrow> e = TypeError"
  "bufferFrom v = Inl e \<Longrightarrow> e = TypeError"
  "devicePathToMacJs v = Inl e \<Longrightarrow> e = TypeError"
  "macOfAdded props p = Inl e \<Longrightarrow> e = TypeError"
  by (auto simp: getMember_def elements_def startsWithJs_def includesJs_def bufferFrom_def
      devicePathToMacJs_def macOfAdded_def Let_def split: jsval.splits if_splits)

lemma manufacturer_errors:
  "parseManufacturerData v = Inl e \<Longrightarrow> e = RangeError"
  by (auto simp: parseManufacturerData_def Let_def split: if_splits list.splits jsnum.splits prod.splits)

lemma device_info_errors:
  "buildDeviceInfo path props = Inl e \<Longrightarrow> e = RangeError"
  by (auto simp: buildDeviceInfo_def Let_def dest: manufacturer_errors split: sum.splits)

lemma removed_source:
  assumes "snd (onInterfacesRemoved path interfaces st) = Some e"
  shows "e = TypeError \<or> e = RangeError \<or> (\<exists>ev. listenerThrows st ev = Some e)"
  using assms
  by (auto simp: onInterfacesRemoved_def andThen_def emit_def
        dest: operation_errors split: sum.splits if_splits option.splits)

lemma battery_source:
  assumes "snd (onBatteryChanged p changed st) = Some e"
  shows "e = TypeError \<or> e = RangeError \<or> (\<exists>ev. listenerThrows st ev = Some e)"
  using assms
  by (auto simp: onBatteryChanged_def emit_def Let_def split: if_splits option.splits)

lemma characteristic_source:
  assumes "snd (onCharacteristicChanged path changed st) = Some e"
  shows "e = TypeError \<or> e = RangeError \<or> (\<exists>ev. listenerThrows st ev = Some e)"
  using assms
  by (auto simp: onCharacteristicChanged_def emit_def Let_def dest: operation_errors
      split: if_splits sum.splits)

lemma device_changed_source:
  assumes "snd (onDevicePropertiesChanged p changed st) = Some e"
  shows "e = TypeError \<or> e = RangeError \<or> (\<exists>ev. listenerThrows st ev = Some e)"
  using assms
  by (auto simp: onDevicePropertiesChanged_def emit_def Let_def case_prod_beta
      dest: manufacturer_errors device_info_errors
      split: sum.splits if_splits option.splits)

lemma added_source:
  assumes "snd (onInterfacesAdded path interfaces st) = Some e"
  shows "e = TypeError \<or> e = RangeError \<or> (\<exists>ev. listenerThrows st ev = Some e)"
  using assms
  by (auto simp: onInterfacesAdded_def andThen_def emit_def Let_def
        dest: operation_errors device_info_errors
        split: sum.splits if_splits option.splits)

lemma properties_source:
  assumes "snd (onPropertiesChanged path iface changed st) = Some e"
  shows "e = TypeError \<or> e = RangeError \<or> (\<exists>ev. listenerThrows st ev = Some e)"
  using assms battery_source[of _ changed st e] device_changed_source[of _ changed st e]
    characteristic_source[of path changed st e]
  by (auto simp: onPropertiesChanged_def emit_def dest: operation_errors
      split: if_splits sum.splits)

lemma body_source:
  assumes "snd (dispatchBody msg st) = Some e"
  shows "e = TypeError \<or> e = RangeError \<or> (\<exists>ev. listenerThrows st ev = Some e)"
  using assms added_source[of _ _ st e] removed_source[of _ _ st e] properties_source[of _ _ _ st e]
  by (auto simp: dispatchBody_def dest: operation_errors split: if_splits sum.splits)

text \<open>The handlers do not touch the listeners.\<close>

lemma removed_listeners:
  "listenerThrows (fst (onInterfacesRemoved path interfaces st)) = listenerThrows st"
  by (auto simp: onInterfacesRemoved_def andThen_def emit_def
        split: sum.splits if_splits option.splits)

lemma battery_listeners:
  "listenerThrows (fst (onBatteryChanged p changed st)) = listenerThrows st"
  by (auto simp: onBatteryChanged_def emit_def Let_def split: if_splits option.splits)

lemma characteristic_listeners:
  "listenerThrows (fst (onCharacteristicChanged path changed st)) = listenerThrows st"
  by (auto simp: onCharacteristicChanged_def emit_def Let_def split: if_splits sum.splits)

lemma device_changed_listeners:
  "listenerThrows (fst (onDevicePropertiesChanged p changed st)) = listenerThrows st"
  by (auto simp: onDevicePropertiesChanged_def emit_def Let_def case_prod_beta
      split: sum.splits if_splits option.splits)

lemma added_listeners:
  "listenerThrows (fst (onInterfacesAdded path interfaces st)) = listenerThrows st"
  by (auto simp: onInterfacesAdded_def andThen_def emit_def Let_def
        split: sum.splits if_splits option.splits)

lemma properties_listeners:
  "listenerThrows (fst (onPropertiesChanged path iface changed st)) = listenerThrows st"
  by (auto simp: onPropertiesChanged_def emit_def battery_listeners device_changed_listeners
      characteristic_listeners split: if_splits sum.splits)

lemma body_listeners: "listenerThrows (fst (dispatchBody msg st)) = listenerThrows st"
  by (auto simp: dispatchBody_def added_listeners removed_listeners properties_listeners
      split: if_splits sum.splits)

lemma dispatcher_listeners: "listenerThrows (fst (onDbusMessage msg st)) = listenerThrows st"
proof -
  obtain st' r where d: "dispatchBody msg st = (st', r)" by (cases "dispatchBody msg st")
  with body_listeners[of msg st] have "listenerThrows st' = listenerThrows st" by simp
  with d show ?thesis
    by (cases r) (simp_all add: onDbusMessage_def split: option.splits)
qed

text \<open>The read of \<^verbatim>\<open>e.message\<close> fails for exactly two thrown values.\<close>

lemma readMessage_cases:
  "readMessage e = (if e = Thrown Null \<or> e = Thrown Undefined then Some TypeError else None)"
  by (cases e) (auto simp: readMessage_def getMember_def)

text \<open>
  As long as no listener throws \<^verbatim>\<open>null\<close> or \<^verbatim>\<open>undefined\<close>, no error leaves the
  dispatcher: whatever the notification (object added, object removed, properties
  changed, or any other or malformed shape), \<^verbatim>\<open>_onDbusMessage\<close> returns normally, what was
  thrown being logged by its catch clause, and the bus delivers every notification of a
  sequence. What leaves the dispatcher otherwise is the \<^verbatim>\<open>TypeError\<close> of its catch
  clause. In every case a notification leaves the cached record of every device other
  than the one it is about as it was (\<open>dispatcher_frame\<close>).
\<close>

lemma dispatcher_escape:
  assumes "snd (onDbusMessage msg st) = Some t"
  shows "t = TypeError \<and>
         (\<exists>ev. listenerThrows st ev = Some (Thrown Null) \<or>
               listenerThrows st ev = Some (Thrown Undefined))"
proof -
  obtain st' r where d: "dispatchBody msg st = (st', r)" by (cases "dispatchBody msg st")
  from assms d obtain e where e: "r = Some e" "readMessage e = Some t"
    by (cases r) (auto simp: onDbusMessage_def split: if_splits option.splits)
  then have n: "e = Thrown Null \<or> e = Thrown Undefined" and t: "t = TypeError"
    by (auto simp: readMessage_cases split: if_splits)
  from d e have "snd (dispatchBody msg st) = Some e" by simp
  from body_source[OF this] n have "\<exists>ev. listenerThrows st ev = Some e" by auto
  with n t show ?thesis by auto
qed

lemma dispatcher_catches:
  assumes "\<forall>ev. listenerThrows st ev \<noteq> Some (Thrown Null) \<and>
                listenerThrows st ev \<noteq> Some (Thrown Undefined)"
  shows "snd (onDbusMessage msg st) = None"
proof (cases "snd (onDbusMessage msg st)")
  case None
  then show ?thesis .
next
  case (Some t)
  from dispatcher_escape[OF this] assms show ?thesis by blast
qed

lemma deliver_all:
  assumes "\<forall>ev. listenerThrows st ev \<noteq> Some (Thrown Null) \<and>
                listenerThrows st ev \<noteq> Some (Thrown Undefined)"
  shows "deliver msgs st = (foldl (\<lambda>s msg. fst (onDbusMessage msg s)) st msgs, None)"
  using assms
proof (induction msgs arbitrary: st)
  case Nil
  then show ?case by simp
next
  case (Cons msg msgs)
  obtain st' where s: "onDbusMessage msg st = (st', None)"
    using dispatcher_catches[OF Cons.prems, of msg] by (cases "onDbusMessage msg st") simp
  then have "listenerThrows st' = listenerThrows st"
    using dispatcher_listeners[of msg st] by simp
  with Cons.prems have "\<forall>ev. listenerThrows st' ev \<noteq> Some (Thrown Null) \<and>
                listenerThrows st' ev \<noteq> Some (Thrown Undefined)" by simp
  from Cons.IH[OF this] s show ?case by simp
qed








end
